theory Spec2Isabelle
  imports Main "HOL-Library.AList"
begin

section \<open>MuseumHub: sessions, channels, tokens and the booking dialogue\<close>

text \<open>
  A shallow embedding of \<^verbatim>\<open>models.py\<close>, \<^verbatim>\<open>channels/base.py\<close>,
  \<^verbatim>\<open>channels/website.py\<close>, \<^verbatim>\<open>channels/instagram.py\<close>,
  \<^verbatim>\<open>session_manager.py\<close> and the booking branches of \<^verbatim>\<open>chatbot()\<close> in
  \<^verbatim>\<open>app.py\<close>.

  Conventions of the model.
  \<^item> A table is the list of its rows in the store's native order; a primary key is the
    greatest key so far plus one.
  \<^item> A \<^verbatim>\<open>datetime\<close> is the number of microseconds since 0001-01-01 00:00:00; a
    \<^verbatim>\<open>date\<close> is an integer number of days.
    Every \<^verbatim>\<open>datetime.utcnow()\<close> of one call reads the same parameter
    \<open>now\<close>, and \<^verbatim>\<open>uuid.uuid4()\<close> is a parameter of the call that draws it.
  \<^item> Values that arrive as JSON are of type \<open>json\<close> (numbers are integers; arrays and
    floats are left out). A Python \<^verbatim>\<open>dict\<close> is an association list with distinct keys,
    in insertion order.
  \<^item> A raised exception that the code does not catch is the value \<open>Inl e\<close>.
  \<^item> The database is SQLite, the application's default. Each call runs in its own
    database session: a commit that raises leaves the tables as the last successful
    commit left them. The failures of a write that are modelled are: a Python
    \<^verbatim>\<open>dict\<close> bound to a text column, a repeated \<^verbatim>\<open>session_id\<close> (a unique column),
    a message left without its session (\<^verbatim>\<open>session_id\<close> is \<^verbatim>\<open>NOT NULL\<close> and the
    relationship has no delete cascade), a \<^verbatim>\<open>NULL\<close> time slot, and an integer
    outside 64 bits; and of a read, the overflow of \<^verbatim>\<open>sum\<close>.
\<close>

subsection \<open>Values\<close>

datatype json = JNull | JBool bool | JInt int | JStr string | JObj "(string \<times> json) list"

type_synonym dict = "(string \<times> json) list"

type_synonym datetime = int

type_synonym date = int

text \<open>The database holds integers of 64 bits; a larger one cannot be bound.\<close>

definition int64 :: "int \<Rightarrow> bool" where
  "int64 n = (- 9223372036854775808 \<le> n \<and> n \<le> 9223372036854775807)"

definition fits_int64 :: "nat option \<Rightarrow> bool" where
  "fits_int64 u = (case u of None \<Rightarrow> True | Some n \<Rightarrow> int64 (int n))"

datatype error =
    ValueError | KeyError | AttributeError | TypeError | OverflowError | IntegrityError | DBAPIError

text \<open>Python truthiness of an optional string (\<^verbatim>\<open>None\<close> and \<^verbatim>\<open>''\<close> are falsy).\<close>

fun truthy_str :: "string option \<Rightarrow> bool" where
  "truthy_str None = False"
| "truthy_str (Some s) = (s \<noteq> [])"

subsection \<open>models.py: rows\<close>

text \<open>
  The columns the modelled operations read or write. \<open>cs_context\<close> is the text column
  \<^verbatim>\<open>context\<close>: \<open>None\<close> is SQL NULL and \<open>Some d\<close> is a column holding the text
  \<^verbatim>\<open>json.dumps(d)\<close>, which \<^verbatim>\<open>json.loads\<close> turns back into \<open>d\<close>. A booking's time
  slot is the text its column holds. The amount of a booking, a floating-point number,
  and its currency are left out.
\<close>

record Channel =
  ch_id :: nat
  ch_name :: string
  ch_type :: string
  ch_is_active :: bool

record ConversationSession =
  cs_id :: nat
  cs_session_id :: string
  cs_user_id :: "nat option"
  cs_channel_id :: nat
  cs_channel_user_id :: "string option"
  cs_status :: string
  cs_context :: "dict option"
  cs_created_at :: datetime
  cs_updated_at :: datetime
  cs_last_activity :: datetime

record ConversationMessage =
  cm_id :: nat
  cm_session_id :: nat
  cm_message_type :: string
  cm_direction :: string
  cm_content :: string
  cm_created_at :: datetime

record AuthenticationToken =
  at_id :: nat
  at_token :: string
  at_user_id :: "nat option"
  at_channel_id :: "nat option"
  at_expires_at :: "datetime option"
  at_is_active :: bool
  at_last_used :: "datetime option"

record Booking =
  bk_id :: nat
  bk_user_id :: nat
  bk_date :: date
  bk_time_slot :: string
  bk_visitors :: int
  bk_payment_status :: string
  bk_payment_method :: "string option"

record store =
  channels :: "Channel list"
  sessions :: "ConversationSession list"
  messages :: "ConversationMessage list"
  tokens :: "AuthenticationToken list"
  bookings :: "Booking list"

definition empty_store :: store where
  "empty_store = \<lparr>channels = [], sessions = [], messages = [], tokens = [], bookings = []\<rparr>"

definition next_id :: "nat list \<Rightarrow> nat" where
  "next_id ks = Suc (fold max ks 0)"

text \<open>\<^verbatim>\<open>ConversationSession.get_context\<close> and \<^verbatim>\<open>set_context\<close>.\<close>

definition get_context :: "ConversationSession \<Rightarrow> dict" where
  "get_context s = (case cs_context s of None \<Rightarrow> [] | Some d \<Rightarrow> d)"

definition set_context :: "datetime \<Rightarrow> dict \<Rightarrow> ConversationSession \<Rightarrow> ConversationSession" where
  "set_context now d s = s\<lparr>cs_context := Some d, cs_updated_at := now, cs_last_activity := now\<rparr>"

subsection \<open>channels/base.py\<close>

text \<open>A channel object: its name, its type and the row \<^verbatim>\<open>channel_db\<close> it found or made.\<close>

record channel_obj =
  channel_name :: string
  channel_type :: string
  channel_db :: Channel

text \<open>\<^verbatim>\<open>BaseChannel._get_or_create_channel\<close>, run by \<^verbatim>\<open>BaseChannel.__init__\<close>.\<close>

definition get_or_create_channel :: "store \<Rightarrow> string \<Rightarrow> string \<Rightarrow> store \<times> Channel" where
  "get_or_create_channel db name type =
     (case find (\<lambda>c. ch_name c = name) (channels db) of
        Some c \<Rightarrow> (db, c)
      | None \<Rightarrow>
          (let c = \<lparr>ch_id = next_id (map ch_id (channels db)), ch_name = name,
                    ch_type = type, ch_is_active = True\<rparr>
           in (db\<lparr>channels := channels db @ [c]\<rparr>, c)))"

definition BaseChannel_init :: "store \<Rightarrow> string \<Rightarrow> string \<Rightarrow> store \<times> channel_obj" where
  "BaseChannel_init db name type =
     (case get_or_create_channel db name type of
        (db', c) \<Rightarrow> (db', \<lparr>channel_name = name, channel_type = type, channel_db = c\<rparr>))"

text \<open>
  \<^verbatim>\<open>BaseChannel.create_session\<close>: what it returns or raises, and the database it
  leaves. The constructor is given \<^verbatim>\<open>context\<close> as it is, and \<^verbatim>\<open>set_context\<close>
  replaces it by its JSON text only when it is truthy. An empty dictionary therefore
  stays a \<^verbatim>\<open>dict\<close> on a text column, which the driver cannot bind: the commit raises
  and nothing is stored. So does the commit of a \<^verbatim>\<open>user_id\<close> outside 64 bits and
  of a \<^verbatim>\<open>session_id\<close> that is already there. The three timestamps take their
  column default at insertion.
\<close>

definition create_session ::
  "store \<Rightarrow> channel_obj \<Rightarrow> datetime \<Rightarrow> string \<Rightarrow> nat option \<Rightarrow> string option \<Rightarrow> dict option
     \<Rightarrow> (error + ConversationSession) \<times> store" where
  "create_session db ch now uuid user_id channel_user_id context =
     (let s0 = \<lparr>cs_id = next_id (map cs_id (sessions db)), cs_session_id = uuid,
                 cs_user_id = user_id, cs_channel_id = ch_id (channel_db ch),
                 cs_channel_user_id = channel_user_id, cs_status = ''active'',
                 cs_context = context, cs_created_at = now, cs_updated_at = now,
                 cs_last_activity = now\<rparr>;
          s = (case context of
                 None \<Rightarrow> s0
               | Some d \<Rightarrow> if d \<noteq> [] then set_context now d s0 else s0)
      in if \<not> fits_int64 user_id then (Inl OverflowError, db)
         else if cs_context s = Some [] then (Inl DBAPIError, db)
         else if uuid \<in> set (map cs_session_id (sessions db)) then (Inl IntegrityError, db)
         else (Inr s, db\<lparr>sessions := sessions db @ [s]\<rparr>))"

text \<open>
  \<^verbatim>\<open>order_by(col.desc())\<close>: a stable sort, greatest first (rows with equal keys keep
  the store's order); \<^verbatim>\<open>.first()\<close> is the head of the result, or \<^verbatim>\<open>None\<close>.
\<close>

definition order_by_desc :: "('a \<Rightarrow> int) \<Rightarrow> 'a list \<Rightarrow> 'a list" where
  "order_by_desc key rows = sort_key (\<lambda>r. - key r) rows"

fun first :: "'a list \<Rightarrow> 'a option" where
  "first [] = None"
| "first (r # _) = Some r"

text \<open>
  \<^verbatim>\<open>BaseChannel.get_session\<close>. The two keys are strings or \<^verbatim>\<open>None\<close>, as the
  callers pass them.
\<close>

definition get_session ::
  "store \<Rightarrow> channel_obj \<Rightarrow> string option \<Rightarrow> string option \<Rightarrow> ConversationSession option" where
  "get_session db ch session_id channel_user_id =
     (if truthy_str session_id then
        first (filter (\<lambda>s. Some (cs_session_id s) = session_id
                           \<and> cs_channel_id s = ch_id (channel_db ch)) (sessions db))
      else if truthy_str channel_user_id then
        first (order_by_desc cs_last_activity
                 (filter (\<lambda>s. cs_channel_user_id s = channel_user_id
                              \<and> cs_channel_id s = ch_id (channel_db ch)
                              \<and> cs_status s = ''active'') (sessions db)))
      else None)"

subsection \<open>session_manager.py\<close>

text \<open>
  The program state: the database and the manager's cache \<^verbatim>\<open>_channels\<close>. A method
  of the manager gives what it returns or raises, and the state it leaves.
\<close>

record world =
  w_db :: store
  mgr_channels :: "(string \<times> channel_obj) list"

definition init_world :: world where
  "init_world = \<lparr>w_db = empty_store, mgr_channels = []\<rparr>"

text \<open>\<^verbatim>\<open>SessionManager._get_channel\<close>.\<close>

definition new_channel :: "world \<Rightarrow> string \<Rightarrow> string \<Rightarrow> (error + channel_obj) \<times> world" where
  "new_channel w name type =
     (case BaseChannel_init (w_db w) name type of
        (db', c) \<Rightarrow> (Inr c, w\<lparr>w_db := db', mgr_channels := AList.update name c (mgr_channels w)\<rparr>))"

definition get_channel :: "world \<Rightarrow> string \<Rightarrow> (error + channel_obj) \<times> world" where
  "get_channel w name =
     (case map_of (mgr_channels w) name of
        Some c \<Rightarrow> (Inr c, w)
      | None \<Rightarrow>
          if name = ''website'' then new_channel w ''website'' ''chat''
          else if name = ''instagram'' then new_channel w ''instagram'' ''social''
          else if name = ''voice'' then new_channel w ''voice'' ''voice''
          else (Inl ValueError, w))"

text \<open>\<^verbatim>\<open>context or {}\<close>.\<close>

fun or_empty :: "dict option \<Rightarrow> dict" where
  "or_empty None = []"
| "or_empty (Some d) = d"

text \<open>\<^verbatim>\<open>SessionManager.get_or_create_session\<close>, with its three branches.\<close>

definition get_or_create_session ::
  "world \<Rightarrow> datetime \<Rightarrow> string \<Rightarrow> string \<Rightarrow> nat option \<Rightarrow> string option \<Rightarrow> dict option
     \<Rightarrow> (error + ConversationSession) \<times> world" where
  "get_or_create_session w now uuid name user_id channel_user_id context =
     (case get_channel w name of
        (Inl e, w1) \<Rightarrow> (Inl e, w1)
      | (Inr ch, w1) \<Rightarrow>
          (case get_session (w_db w1) ch None channel_user_id of
             None \<Rightarrow>
               (case create_session (w_db w1) ch now uuid user_id channel_user_id
                       (Some (or_empty context)) of
                  (r, db') \<Rightarrow> (r, w1\<lparr>w_db := db'\<rparr>))
           | Some s \<Rightarrow>
               if cs_status s \<noteq> ''active'' then
                 (case create_session (w_db w1) ch now uuid user_id channel_user_id
                         (Some (or_empty context)) of
                    (r, db') \<Rightarrow> (r, w1\<lparr>w_db := db'\<rparr>))
               else (Inr s, w1)))"

text \<open>
  \<^verbatim>\<open>SessionManager.transfer_session\<close>. \<open>session\<close> is the object the caller holds;
  its row is the one with its primary key, and the UPDATE of the status also runs the
  column's \<^verbatim>\<open>onupdate\<close> for \<^verbatim>\<open>updated_at\<close>. When \<^verbatim>\<open>create_session\<close> raises, the
  source is not touched.
\<close>

definition mark_transferred :: "datetime \<Rightarrow> ConversationSession \<Rightarrow> store \<Rightarrow> store" where
  "mark_transferred now session db =
     db\<lparr>sessions :=
          map (\<lambda>r. if cs_id r = cs_id session
                    then r\<lparr>cs_status := ''transferred'', cs_updated_at := now\<rparr> else r)
            (sessions db)\<rparr>"

definition transfer_session ::
  "world \<Rightarrow> datetime \<Rightarrow> string \<Rightarrow> ConversationSession \<Rightarrow> string \<Rightarrow> string option
     \<Rightarrow> (error + ConversationSession) \<times> world" where
  "transfer_session w now uuid session target_channel_name target_channel_user_id =
     (case get_channel w target_channel_name of
        (Inl e, w1) \<Rightarrow> (Inl e, w1)
      | (Inr target_channel, w1) \<Rightarrow>
          (let context = get_context session
           in case create_session (w_db w1) target_channel now uuid (cs_user_id session)
                     target_channel_user_id (Some context) of
                (Inl e, db') \<Rightarrow> (Inl e, w1\<lparr>w_db := db'\<rparr>)
              | (Inr new_session, db') \<Rightarrow>
                  (Inr new_session, w1\<lparr>w_db := mark_transferred now session db'\<rparr>)))"

text \<open>
  \<^verbatim>\<open>SessionManager.get_conversation_history\<close>. The limit is a natural number; what
  the database engine does with a negative limit is outside the model.
\<close>

definition get_conversation_history ::
  "store \<Rightarrow> ConversationSession \<Rightarrow> nat \<Rightarrow> ConversationMessage list" where
  "get_conversation_history db session limit =
     rev (take limit (order_by_desc cm_created_at
            (filter (\<lambda>m. cm_session_id m = cs_id session) (messages db))))"

text \<open>
  \<^verbatim>\<open>SessionManager.cleanup_old_sessions\<close>: what it returns or raises, and the
  database it leaves. \<^verbatim>\<open>db.session.delete(session)\<close> removes the row with the
  session's primary key. The relationship to the messages has no delete cascade, so
  at the commit the messages of a deleted session are first given the session
  \<^verbatim>\<open>NULL\<close>, which their column does not allow: if one of the old sessions has a
  message the commit raises and nothing is deleted. (The logs and escalations of a
  session may be left without one; their tables are not modelled.)
  \<^verbatim>\<open>timedelta(days=d)\<close> raises \<^verbatim>\<open>OverflowError\<close> for more than 999999999 days,
  and so does a difference before the first or after the last \<^verbatim>\<open>datetime\<close>.
\<close>

definition timedelta_days :: "int \<Rightarrow> int" where
  "timedelta_days d = d * 86400000000"

definition datetime_max :: datetime where
  "datetime_max = 315537897599999999"

definition cutoff_of :: "datetime \<Rightarrow> int \<Rightarrow> datetime option" where
  "cutoff_of now days_inactive =
     (if \<bar>days_inactive\<bar> > 999999999 then None
      else if 0 \<le> now - timedelta_days days_inactive
              \<and> now - timedelta_days days_inactive \<le> datetime_max
      then Some (now - timedelta_days days_inactive) else None)"

definition delete_session :: "ConversationSession \<Rightarrow> store \<Rightarrow> store" where
  "delete_session s db = db\<lparr>sessions := filter (\<lambda>r. cs_id r \<noteq> cs_id s) (sessions db)\<rparr>"

definition old_closed :: "datetime \<Rightarrow> ConversationSession \<Rightarrow> bool" where
  "old_closed cutoff_date s = (cs_status s = ''closed'' \<and> cs_updated_at s < cutoff_date)"

definition has_messages :: "store \<Rightarrow> ConversationSession \<Rightarrow> bool" where
  "has_messages db s = list_ex (\<lambda>m. cm_session_id m = cs_id s) (messages db)"

definition cleanup_old_sessions :: "store \<Rightarrow> datetime \<Rightarrow> int \<Rightarrow> (error + nat) \<times> store" where
  "cleanup_old_sessions db now days_inactive =
     (case cutoff_of now days_inactive of
        None \<Rightarrow> (Inl OverflowError, db)
      | Some cutoff_date \<Rightarrow>
          (let old_sessions = filter (old_closed cutoff_date) (sessions db);
               count = length old_sessions
           in if list_ex (has_messages db) old_sessions then (Inl IntegrityError, db)
              else (Inr count, fold delete_session old_sessions db)))"

text \<open>
  A sequence of calls of \<^verbatim>\<open>get_or_create_session\<close>, each continuing from the state
  the one before it left, whether it returned or raised.
\<close>

record call =
  c_now :: datetime
  c_uuid :: string
  c_channel_name :: string
  c_user_id :: "nat option"
  c_channel_user_id :: "string option"
  c_context :: "dict option"

definition run_call :: "world \<Rightarrow> call \<Rightarrow> world" where
  "run_call w c =
     snd (get_or_create_session w (c_now c) (c_uuid c) (c_channel_name c) (c_user_id c)
            (c_channel_user_id c) (c_context c))"

definition run_calls :: "world \<Rightarrow> call list \<Rightarrow> world" where
  "run_calls w cs = foldl run_call w cs"

text \<open>The active sessions of a (channel, channel user) pair.\<close>

definition active_sessions :: "store \<Rightarrow> nat \<Rightarrow> string option \<Rightarrow> ConversationSession list" where
  "active_sessions db cid cuid =
     filter (\<lambda>s. cs_channel_user_id s = cuid \<and> cs_channel_id s = cid \<and> cs_status s = ''active'')
       (sessions db)"

subsection \<open>channels/website.py and channels/instagram.py: authenticate\<close>

text \<open>\<^verbatim>\<open>AuthenticationToken.is_valid\<close>.\<close>

definition is_valid :: "datetime \<Rightarrow> AuthenticationToken \<Rightarrow> bool" where
  "is_valid now t =
     (if \<not> at_is_active t then False
      else if (case at_expires_at t of None \<Rightarrow> False | Some e \<Rightarrow> e < now) then False
      else True)"

text \<open>
  \<^verbatim>\<open>WebsiteChannel.authenticate\<close>: the database it leaves and the value it returns.
\<close>

definition touch_token :: "datetime \<Rightarrow> AuthenticationToken \<Rightarrow> store \<Rightarrow> store" where
  "touch_token now auth_token db =
     db\<lparr>tokens :=
          map (\<lambda>t. if at_id t = at_id auth_token then t\<lparr>at_last_used := Some now\<rparr> else t)
            (tokens db)\<rparr>"

definition WebsiteChannel_authenticate ::
  "store \<Rightarrow> channel_obj \<Rightarrow> datetime \<Rightarrow> string option \<Rightarrow> store \<times> nat option" where
  "WebsiteChannel_authenticate db ch now token =
     (if \<not> truthy_str token then (db, None)
      else
        (case first (filter (\<lambda>t. Some (at_token t) = token
                                  \<and> at_channel_id t = Some (ch_id (channel_db ch))
                                  \<and> at_is_active t) (tokens db)) of
           None \<Rightarrow> (db, None)
         | Some auth_token \<Rightarrow>
             if is_valid now auth_token
             then (touch_token now auth_token db, at_user_id auth_token)
             else (db, None)))"


subsection \<open>JSON values as Python sees them\<close>

fun truthy :: "json \<Rightarrow> bool" where
  "truthy JNull = False"
| "truthy (JBool b) = b"
| "truthy (JInt n) = (n \<noteq> 0)"
| "truthy (JStr s) = (s \<noteq> [])"
| "truthy (JObj d) = (d \<noteq> [])"

text \<open>\<^verbatim>\<open>d.get(k)\<close> and \<^verbatim>\<open>d.get(k, default)\<close> on a dictionary.\<close>

definition dget :: "dict \<Rightarrow> string \<Rightarrow> json" where
  "dget d k = (case map_of d k of None \<Rightarrow> JNull | Some v \<Rightarrow> v)"

definition dget_default :: "dict \<Rightarrow> string \<Rightarrow> json \<Rightarrow> json" where
  "dget_default d k v0 = (case map_of d k of None \<Rightarrow> v0 | Some v \<Rightarrow> v)"

text \<open>\<^verbatim>\<open>x.get(k)\<close> on any value: only a dictionary has the method.\<close>

fun py_get :: "json \<Rightarrow> string \<Rightarrow> error + json" where
  "py_get (JObj d) k = Inr (dget d k)"
| "py_get _ k = Inl AttributeError"

text \<open>\<^verbatim>\<open>a or x.get(k)\<close>: the right operand is evaluated only when \<open>a\<close> is falsy.\<close>

definition or_get :: "json \<Rightarrow> json \<Rightarrow> string \<Rightarrow> error + json" where
  "or_get a x k = (if truthy a then Inr a else py_get x k)"

text \<open>\<^verbatim>\<open>d.update(x)\<close>: a dictionary is merged key by key.\<close>

fun dict_update :: "dict \<Rightarrow> json \<Rightarrow> error + dict" where
  "dict_update d (JObj other) = Inr (fold (\<lambda>(k, v). AList.update k v) other d)"
| "dict_update d (JStr s) = Inl ValueError"
| "dict_update d _ = Inl TypeError"


text \<open>
  What a request reads from outside: today's date, \<^verbatim>\<open>datetime.strptime(s, '%Y-%m-%d')\<close>
  (\<open>None\<close> where it raises), \<^verbatim>\<open>date.isoformat\<close>, \<^verbatim>\<open>str.strip\<close>, and
  \<^verbatim>\<open>int\<close> on a string (\<open>None\<close> where it raises \<^verbatim>\<open>ValueError\<close>).
\<close>

record env =
  today :: date
  strptime_ymd :: "string \<Rightarrow> date option"
  isoformat :: "date \<Rightarrow> string"
  str_strip :: "string \<Rightarrow> string"
  int_of_str :: "string \<Rightarrow> int option"

text \<open>\<^verbatim>\<open>int(x)\<close>.\<close>

fun py_int :: "env \<Rightarrow> json \<Rightarrow> error + int" where
  "py_int e (JInt n) = Inr n"
| "py_int e (JBool b) = Inr (if b then 1 else 0)"
| "py_int e (JStr s) = (case int_of_str e s of None \<Rightarrow> Inl ValueError | Some n \<Rightarrow> Inr n)"
| "py_int e JNull = Inl TypeError"
| "py_int e (JObj d) = Inl TypeError"

subsection \<open>app.py: booking configuration\<close>

text \<open>The slot names contain an en dash, written here as its three UTF-8 bytes.\<close>

definition en_dash :: string where
  "en_dash = [CHR 0xE2, CHR 0x80, CHR 0x93]"

definition TIME_SLOTS :: "string list" where
  "TIME_SLOTS = [''9AM'' @ en_dash @ ''10AM'', ''10AM'' @ en_dash @ ''11AM'',
                 ''11AM'' @ en_dash @ ''12PM'', ''1PM'' @ en_dash @ ''2PM'',
                 ''2PM'' @ en_dash @ ''3PM'', ''3PM'' @ en_dash @ ''4PM'']"

definition SLOT_CAPACITY :: "(string \<times> int) list" where
  "SLOT_CAPACITY = [(''9AM'' @ en_dash @ ''10AM'', 20), (''10AM'' @ en_dash @ ''11AM'', 25),
                    (''11AM'' @ en_dash @ ''12PM'', 25), (''1PM'' @ en_dash @ ''2PM'', 30),
                    (''2PM'' @ en_dash @ ''3PM'', 30), (''3PM'' @ en_dash @ ''4PM'', 20)]"

definition TICKET_PRICE :: int where
  "TICKET_PRICE = 100"

text \<open>
  \<^verbatim>\<open>SLOT_CAPACITY.get(slot, 20)\<close>. A dictionary is not hashable, so looking one up
  raises \<^verbatim>\<open>TypeError\<close>; any other value that is not a key gives the default.
\<close>

definition slot_capacity :: "string \<Rightarrow> int" where
  "slot_capacity s = (case map_of SLOT_CAPACITY s of None \<Rightarrow> 20 | Some c \<Rightarrow> c)"

fun capacity_of :: "json \<Rightarrow> error + int" where
  "capacity_of (JStr s) = Inr (slot_capacity s)"
| "capacity_of (JObj d) = Inl TypeError"
| "capacity_of _ = Inr 20"

text \<open>\<^verbatim>\<open>sum\<close> raises when a partial sum leaves the 64 bits.\<close>

fun sql_sum :: "int \<Rightarrow> int list \<Rightarrow> int option" where
  "sql_sum acc [] = Some acc"
| "sql_sum acc (x # xs) = (if int64 (acc + x) then sql_sum (acc + x) xs else None)"

text \<open>
  \<^verbatim>\<open>coalesce(sum(Booking.visitors), 0)\<close> over the bookings of a date and slot;
  \<open>None\<close> where the query raises.
\<close>

definition booked_sum :: "store \<Rightarrow> date \<Rightarrow> string \<Rightarrow> int option" where
  "booked_sum db d slot =
     sql_sum 0 (map bk_visitors (filter (\<lambda>b. bk_date b = d \<and> bk_time_slot b = slot) (bookings db)))"

text \<open>
  A slot that comes from a request is any JSON value. The text column gives a bound
  number the text of its decimal digits, in a comparison as in a row; \<^verbatim>\<open>True\<close> and
  \<^verbatim>\<open>False\<close> are bound as 1 and 0. \<open>slot_text\<close> is the text of a value,
  \<open>None\<close> for a value that cannot be bound (a dictionary, an integer outside 64 bits)
  and for \<^verbatim>\<open>None\<close>, which is bound as \<^verbatim>\<open>NULL\<close>.
\<close>

fun show_nat :: "nat \<Rightarrow> string" where
  "show_nat n = (if n < 10 then [char_of (48 + n)]
                 else show_nat (n div 10) @ [char_of (48 + n mod 10)])"

definition show_int :: "int \<Rightarrow> string" where
  "show_int n = (if n < 0 then CHR ''-'' # show_nat (nat (- n)) else show_nat (nat n))"

fun slot_text :: "json \<Rightarrow> string option" where
  "slot_text (JStr s) = Some s"
| "slot_text (JInt n) = (if int64 n then Some (show_int n) else None)"
| "slot_text (JBool b) = Some (if b then ''1'' else ''0'')"
| "slot_text JNull = None"
| "slot_text (JObj d) = None"

text \<open>
  The occupancy query for a slot value. No row has a \<^verbatim>\<open>NULL\<close> slot, so for
  \<^verbatim>\<open>None\<close> the sum is 0.
\<close>

definition slot_booked :: "store \<Rightarrow> date \<Rightarrow> json \<Rightarrow> int option" where
  "slot_booked db d v =
     (if v = JNull then Some 0
      else (case slot_text v of None \<Rightarrow> None | Some slot \<Rightarrow> booked_sum db d slot))"

subsection \<open>app.py: the cookie session and the reply\<close>

text \<open>The Flask session: the keys \<^verbatim>\<open>user_id\<close> and \<^verbatim>\<open>chatbot_booking\<close>.\<close>

record flask_session =
  fs_user_id :: "nat option"
  chatbot_booking :: "dict option"

text \<open>
  A reply is the JSON object handed to \<^verbatim>\<open>jsonify\<close>. Its texts are named by what they
  say and carry the values formatted into them; emoji and wording are left out.
\<close>

datatype label = Label string | DateLabel string date | SlotLabel string int

datatype button = Button (b_label: label) (b_action: string) (b_fields: dict)

datatype reply_text =
    AskQuestion
  | StartStep1
  | PleaseSelectDate
  | AllSlotsFull date
  | DateSelected date
  | PleaseSelectTimeSlot
  | TimeSlotSelected json
  | PleaseSelect1to10
  | BookingSummary date json int int
  | BookingIncomplete
  | OnlyAvailable int json
  | BookingConfirmedCash Booking
  | BookingCreatedOnline Booking
  | ErrorCreatingBooking

record response =
  r_response :: "reply_text option"
  r_step :: "string option"
  r_buttons :: "button list"
  r_booking_data :: "dict option"
  r_amount :: "int option"
  r_action :: "string option"
  r_success :: bool
  r_booking :: "Booking option"
  r_payment_type :: "string option"
  r_payment_required :: bool

definition say :: "reply_text \<Rightarrow> response" where
  "say t = \<lparr>r_response = Some t, r_step = None, r_buttons = [], r_booking_data = None,
            r_amount = None, r_action = None, r_success = False, r_booking = None,
            r_payment_type = None, r_payment_required = False\<rparr>"

datatype http_reply = Redirect | Json response

text \<open>
  The result of a request: the session and database it leaves and its reply, or \<open>Other\<close>
  for a request that is served by a branch of \<^verbatim>\<open>chatbot()\<close> that is not modelled.
\<close>

datatype outcome = Done flask_session store http_reply | Other

subsection \<open>app.py: the booking steps of chatbot()\<close>

text \<open>
  A date is its proleptic Gregorian ordinal, as \<^verbatim>\<open>date.toordinal\<close> gives it; the
  last date is 9999-12-31, and adding days beyond it raises \<^verbatim>\<open>OverflowError\<close>.
\<close>

definition date_max :: date where
  "date_max = 3652059"

definition plus_days :: "date \<Rightarrow> int \<Rightarrow> date option" where
  "plus_days d n = (if d + n \<le> date_max then Some (d + n) else None)"

text \<open>
  The date parse of \<^verbatim>\<open>select_date\<close> and \<^verbatim>\<open>select_visitors\<close> (lines 655-663 and
  746-754): only \<^verbatim>\<open>strptime\<close> is inside the \<^verbatim>\<open>try\<close>, and a date that does not
  parse is replaced by today.
\<close>

definition date_or_today :: "env \<Rightarrow> json \<Rightarrow> error + date" where
  "date_or_today e v =
     (if v = JStr ''today'' then Inr (today e)
      else if v = JStr ''tomorrow'' then
        (case plus_days (today e) 1 of None \<Rightarrow> Inl OverflowError | Some d \<Rightarrow> Inr d)
      else (case v of
              JStr s \<Rightarrow> (case strptime_ymd e s of None \<Rightarrow> Inr (today e) | Some d \<Rightarrow> Inr d)
            | _ \<Rightarrow> Inr (today e)))"

text \<open>
  The date parse of \<^verbatim>\<open>confirm_and_pay\<close> (lines 823-828), all of it inside the
  \<^verbatim>\<open>try\<close>: \<open>None\<close> where it raises.
\<close>

definition parse_date :: "env \<Rightarrow> json \<Rightarrow> date option" where
  "parse_date e v =
     (if v = JStr ''today'' then Some (today e)
      else if v = JStr ''tomorrow'' then plus_days (today e) 1
      else (case v of JStr s \<Rightarrow> strptime_ymd e s | _ \<Rightarrow> None))"

record slot_info =
  si_time_slot :: string
  si_remaining :: int
  si_is_full :: bool
  si_capacity :: int

definition slot_data :: "store \<Rightarrow> date \<Rightarrow> string \<Rightarrow> slot_info option" where
  "slot_data db d slot =
     (case booked_sum db d slot of
        None \<Rightarrow> None
      | Some booked \<Rightarrow>
          (let capacity = slot_capacity slot
           in Some \<lparr>si_time_slot = slot, si_remaining = max 0 (capacity - booked),
                    si_is_full = (booked \<ge> capacity), si_capacity = capacity\<rparr>))"

text \<open>\<^verbatim>\<open>action == 'start_booking'\<close> (lines 608-639).\<close>

definition start_booking :: "env \<Rightarrow> flask_session \<Rightarrow> store \<Rightarrow> error + outcome" where
  "start_booking e sess db =
     (let b = [(''step'', JStr ''select_date''), (''date'', JNull), (''time_slot'', JNull),
               (''visitors'', JNull)]
      in case plus_days (today e) 1 of
           None \<Rightarrow> Inl OverflowError
         | Some tomorrow \<Rightarrow>
             (case plus_days (today e) 7 of
                None \<Rightarrow> Inl OverflowError
              | Some next_week \<Rightarrow>
                  Inr (Done (sess\<lparr>chatbot_booking := Some b\<rparr>) db
                    (Json ((say StartStep1)
                       \<lparr>r_step := Some ''select_date'',
                        r_buttons :=
                          [Button (DateLabel ''Today'' (today e)) ''select_date''
                             [(''value'', JStr ''today'')],
                           Button (DateLabel ''Tomorrow'' tomorrow) ''select_date''
                             [(''value'', JStr ''tomorrow'')],
                           Button (DateLabel ''Next Week'' next_week) ''select_date''
                             [(''value'', JStr (isoformat e next_week))],
                           Button (Label ''Choose Another Date'') ''custom_date'' []],
                        r_booking_data := Some b\<rparr>)))))"

text \<open>
  \<^verbatim>\<open>step == 'select_date' or action == 'select_date'\<close> (lines 642-707). The date and
  the step \<^verbatim>\<open>select_time\<close> are written to the stored state before the slots are
  looked at.
\<close>

definition select_date :: "env \<Rightarrow> flask_session \<Rightarrow> store \<Rightarrow> dict \<Rightarrow> json \<Rightarrow> error + outcome" where
  "select_date e sess db data booking_data =
     (case or_get (dget data ''date'') booking_data ''date'' of
        Inl err \<Rightarrow> Inl err
      | Inr selected_date \<Rightarrow>
          if \<not> truthy selected_date then Inr (Done sess db (Json (say PleaseSelectDate)))
          else
            (let b0 = (case chatbot_booking sess of None \<Rightarrow> [] | Some b \<Rightarrow> b);
                 b1 = AList.update ''step'' (JStr ''select_time'')
                        (AList.update ''date'' selected_date b0);
                 sess1 = sess\<lparr>chatbot_booking := Some b1\<rparr>
             in case date_or_today e selected_date of
                  Inl err \<Rightarrow> Inl err
                | Inr target_date \<Rightarrow>
                    (case those (map (slot_data db target_date) TIME_SLOTS) of
                       None \<Rightarrow> Inl DBAPIError
                     | Some slots_data \<Rightarrow>
                         (let available_slots = filter (\<lambda>s. \<not> si_is_full s) slots_data
                          in if available_slots = [] then
                               (case plus_days target_date 7 of
                                  None \<Rightarrow> Inl OverflowError
                                | Some next_week \<Rightarrow>
                                    Inr (Done sess1 db
                                      (Json ((say (AllSlotsFull target_date))
                                         \<lparr>r_step := Some ''select_date'',
                                          r_buttons :=
                                            [Button (Label ''Try Tomorrow'') ''select_date''
                                               [(''value'', JStr ''tomorrow'')],
                                             Button (Label ''Try Next Week'') ''select_date''
                                               [(''value'', JStr (isoformat e next_week))],
                                             Button (Label ''Start Over'') ''start_booking''
                                               []]\<rparr>))))
                             else
                               Inr (Done sess1 db
                                 (Json ((say (DateSelected target_date))
                                    \<lparr>r_step := Some ''select_time'',
                                     r_buttons :=
                                       map (\<lambda>s. Button (SlotLabel (si_time_slot s) (si_remaining s))
                                                   ''select_time''
                                                   [(''value'', JStr (si_time_slot s))])
                                         (filter (\<lambda>s. \<not> si_is_full s) slots_data),
                                     r_booking_data := Some b1\<rparr>)))))))"

text \<open>
  \<^verbatim>\<open>step == 'select_time' or action == 'select_time'\<close> (lines 709-729). Writing to
  \<^verbatim>\<open>session['chatbot_booking']\<close> raises \<^verbatim>\<open>KeyError\<close> when the key is absent.
\<close>

definition visitor_buttons :: "button list" where
  "visitor_buttons =
     [Button (Label ''1 Visitor'') ''select_visitors'' [(''value'', JStr ''1'')],
      Button (Label ''2 Visitors'') ''select_visitors'' [(''value'', JStr ''2'')],
      Button (Label ''3 Visitors'') ''select_visitors'' [(''value'', JStr ''3'')],
      Button (Label ''4 Visitors'') ''select_visitors'' [(''value'', JStr ''4'')],
      Button (Label ''5+ Visitors'') ''custom_visitors'' []]"

definition select_time :: "flask_session \<Rightarrow> store \<Rightarrow> dict \<Rightarrow> json \<Rightarrow> error + outcome" where
  "select_time sess db data booking_data =
     (case or_get (dget data ''time_slot'') booking_data ''time_slot'' of
        Inl err \<Rightarrow> Inl err
      | Inr selected_slot \<Rightarrow>
          if \<not> truthy selected_slot then Inr (Done sess db (Json (say PleaseSelectTimeSlot)))
          else
            (case chatbot_booking sess of
               None \<Rightarrow> Inl KeyError
             | Some b0 \<Rightarrow>
                 (let b1 = AList.update ''step'' (JStr ''select_visitors'')
                             (AList.update ''time_slot'' selected_slot b0)
                  in Inr (Done (sess\<lparr>chatbot_booking := Some b1\<rparr>) db
                       (Json ((say (TimeSlotSelected selected_slot))
                          \<lparr>r_step := Some ''select_visitors'', r_buttons := visitor_buttons,
                           r_booking_data := Some b1\<rparr>))))))"

text \<open>\<^verbatim>\<open>step == 'select_visitors' or action == 'select_visitors'\<close> (lines 731-766).\<close>

definition submitted_visitors :: "env \<Rightarrow> dict \<Rightarrow> json \<Rightarrow> error + int" where
  "submitted_visitors e data booking_data =
     (case or_get (dget data ''visitors'') booking_data ''visitors'' of
        Inl err \<Rightarrow> Inl err
      | Inr v \<Rightarrow> py_int e (if truthy v then v else JInt 1))"

definition select_visitors :: "env \<Rightarrow> flask_session \<Rightarrow> store \<Rightarrow> dict \<Rightarrow> json \<Rightarrow> error + outcome" where
  "select_visitors e sess db data booking_data =
     (case submitted_visitors e data booking_data of
        Inl err \<Rightarrow> Inl err
      | Inr visitors \<Rightarrow>
          if visitors < 1 \<or> visitors > 10 then Inr (Done sess db (Json (say PleaseSelect1to10)))
          else
            (case chatbot_booking sess of
               None \<Rightarrow> Inl KeyError
             | Some b0 \<Rightarrow>
                 (let b1 = AList.update ''step'' (JStr ''confirm_booking'')
                             (AList.update ''visitors'' (JInt visitors) b0);
                      amount = visitors * TICKET_PRICE;
                      booking_date = dget b1 ''date'';
                      time_slot = dget b1 ''time_slot''
                  in case date_or_today e booking_date of
                       Inl err \<Rightarrow> Inl err
                     | Inr display_date \<Rightarrow>
                         Inr (Done (sess\<lparr>chatbot_booking := Some b1\<rparr>) db
                           (Json ((say (BookingSummary display_date time_slot visitors amount))
                              \<lparr>r_step := Some ''confirm_booking'',
                               r_buttons :=
                                 [Button (Label ''Pay Online Now'') ''confirm_and_pay''
                                    [(''payment_type'', JStr ''online'')],
                                  Button (Label ''Pay Later (Cash)'') ''confirm_and_pay''
                                    [(''payment_type'', JStr ''cash'')],
                                  Button (Label ''Edit Booking'') ''start_booking'' []],
                               r_booking_data := Some b1,
                               r_amount := Some amount\<rparr>))))))"

text \<open>
  \<^verbatim>\<open>action == 'confirm_and_pay'\<close>, first part (lines 769-819): the date, slot and
  visitor count are gathered from the session, the request's \<^verbatim>\<open>booking_data\<close> and the
  request itself. The result is the session as merged and the three values, or \<open>None\<close>
  where date or slot is still missing.
\<close>

definition or3 :: "json \<Rightarrow> json \<Rightarrow> string \<Rightarrow> dict \<Rightarrow> error + json" where
  "or3 a x k data =
     (if truthy a then Inr a
      else (case py_get x k of
              Inl err \<Rightarrow> Inl err
            | Inr b \<Rightarrow> Inr (if truthy b then b else dget data k)))"

definition int_or_1 :: "env \<Rightarrow> json \<Rightarrow> int" where
  "int_or_1 e v = (case py_int e v of Inl err \<Rightarrow> 1 | Inr n \<Rightarrow> n)"

definition merge_request :: "flask_session \<Rightarrow> json \<Rightarrow> error + flask_session \<times> dict" where
  "merge_request sess from_request =
     (let booking_info = (case chatbot_booking sess of None \<Rightarrow> [] | Some b \<Rightarrow> b)
      in if truthy from_request then
           (case dict_update booking_info from_request of
              Inl err \<Rightarrow> Inl err
            | Inr b \<Rightarrow> Inr (sess\<lparr>chatbot_booking := Some b\<rparr>, b))
         else Inr (sess, booking_info))"

definition confirm_inputs ::
  "env \<Rightarrow> flask_session \<Rightarrow> dict \<Rightarrow> error + flask_session \<times> (json \<times> json \<times> int) option" where
  "confirm_inputs e sess data =
     (let from_request = dget_default data ''booking_data'' (JObj [])
      in case merge_request sess from_request of
           Inl err \<Rightarrow> Inl err
         | Inr (sess1, booking_info) \<Rightarrow>
             (case or3 (dget booking_info ''date'') from_request ''date'' data of
                Inl err \<Rightarrow> Inl err
              | Inr date_str \<Rightarrow>
             (case or3 (dget booking_info ''time_slot'') from_request ''time_slot'' data of
                Inl err \<Rightarrow> Inl err
              | Inr time_slot \<Rightarrow>
             (case or3 (dget booking_info ''visitors'') from_request ''visitors'' data of
                Inl err \<Rightarrow> Inl err
              | Inr visitors_value \<Rightarrow>
                  (let visitors = (if visitors_value = JNull then 1 else int_or_1 e visitors_value)
                   in if \<not> truthy date_str \<or> \<not> truthy time_slot then
                        (let again = (case chatbot_booking sess1 of None \<Rightarrow> [] | Some b \<Rightarrow> b);
                             date_str2 = (if again \<noteq> [] \<and> truthy (dget again ''date'')
                                          then dget again ''date'' else date_str);
                             time_slot2 = (if again \<noteq> [] \<and> truthy (dget again ''time_slot'')
                                           then dget again ''time_slot'' else time_slot);
                             visitors2 = (if again \<noteq> [] \<and> truthy (dget again ''visitors'')
                                          then int_or_1 e (dget again ''visitors'') else visitors)
                         in if \<not> truthy date_str2 \<or> \<not> truthy time_slot2 then Inr (sess1, None)
                            else Inr (sess1, Some (date_str2, time_slot2, visitors2)))
                      else Inr (sess1, Some (date_str, time_slot, visitors)))))))"

text \<open>
  Second part (lines 821-889), the \<^verbatim>\<open>try\<close> block: every exception inside it is caught
  and answered with \<open>ErrorCreatingBooking\<close>. Those modelled are a date that does not
  parse, a slot that cannot be bound or looked up, an overflowing \<^verbatim>\<open>sum\<close>, and an
  INSERT that the database refuses: a visitor count or user outside 64 bits or a
  \<^verbatim>\<open>NULL\<close> slot.
\<close>

definition booking_failed :: "flask_session \<Rightarrow> store \<Rightarrow> outcome" where
  "booking_failed sess db =
     Done sess db (Json ((say ErrorCreatingBooking)\<lparr>r_action := Some ''start_booking''\<rparr>))"

definition confirm_booking ::
  "env \<Rightarrow> nat \<Rightarrow> flask_session \<Rightarrow> store \<Rightarrow> json \<Rightarrow> json \<Rightarrow> json \<Rightarrow> int \<Rightarrow> outcome" where
  "confirm_booking e uid sess db payment_type date_str time_slot visitors =
     (case parse_date e date_str of
        None \<Rightarrow> booking_failed sess db
      | Some target_date \<Rightarrow>
          (case slot_booked db target_date time_slot of
             None \<Rightarrow> booking_failed sess db
           | Some booked \<Rightarrow>
               (case capacity_of time_slot of
                  Inl err \<Rightarrow> booking_failed sess db
                | Inr capacity \<Rightarrow>
                    if booked + visitors > capacity then
                      Done sess db
                        (Json ((say (OnlyAvailable (max 0 (capacity - booked)) time_slot))
                           \<lparr>r_step := Some ''select_time'',
                            r_buttons :=
                              [Button (Label ''Choose Different Slot'') ''select_date''
                                 [(''value'', date_str)],
                               Button (Label ''Start Over'') ''start_booking'' []]\<rparr>))
                    else
                      (case slot_text time_slot of
                         None \<Rightarrow> booking_failed sess db
                       | Some slot \<Rightarrow>
                           if \<not> int64 visitors \<or> \<not> int64 (int uid) then booking_failed sess db
                           else
                             (let cash = (payment_type = JStr ''cash'');
                                  booking =
                                    \<lparr>bk_id = next_id (map bk_id (bookings db)), bk_user_id = uid,
                                     bk_date = target_date, bk_time_slot = slot,
                                     bk_visitors = visitors,
                                     bk_payment_status =
                                       (if cash then ''cash_pending'' else ''pending''),
                                     bk_payment_method = (if cash then Some ''cash'' else None)\<rparr>;
                                  pay = [(''booking_id'', JInt (int (bk_id booking)))];
                                  db1 = db\<lparr>bookings := bookings db @ [booking]\<rparr>;
                                  sess1 = sess\<lparr>chatbot_booking := None\<rparr>
                              in if cash then
                                   Done sess1 db1
                                     (Json ((say (BookingConfirmedCash booking))
                                        \<lparr>r_success := True, r_booking := Some booking,
                                         r_payment_type := Some ''cash'',
                                         r_buttons :=
                                           [Button (Label ''Pay Online Now'') ''pay_online'' pay,
                                            Button (Label ''View All Bookings'')
                                              ''view_bookings'' []]\<rparr>))
                                 else
                                   Done sess1 db1
                                     (Json ((say (BookingCreatedOnline booking))
                                        \<lparr>r_success := True, r_booking := Some booking,
                                         r_payment_type := Some ''online'',
                                         r_payment_required := True,
                                         r_buttons :=
                                           [Button (Label ''Pay Now'') ''pay_online'' pay,
                                            Button (Label ''Pay Later (Cash)'')
                                              ''change_to_cash'' pay,
                                            Button (Label ''View All Bookings'')
                                              ''view_bookings'' []]\<rparr>)))))))"

definition confirm_and_pay :: "env \<Rightarrow> nat \<Rightarrow> flask_session \<Rightarrow> store \<Rightarrow> dict \<Rightarrow> error + outcome" where
  "confirm_and_pay e uid sess db data =
     (case confirm_inputs e sess data of
        Inl err \<Rightarrow> Inl err
      | Inr (sess1, None) \<Rightarrow>
          Inr (Done sess1 db
            (Json ((say BookingIncomplete)
               \<lparr>r_action := Some ''start_booking'',
                r_buttons := [Button (Label ''Start New Booking'') ''start_booking'' []]\<rparr>)))
      | Inr (sess1, Some (date_str, time_slot, visitors)) \<Rightarrow>
          Inr (confirm_booking e uid sess1 db (dget_default data ''payment_type'' (JStr ''online''))
                 date_str time_slot visitors))"

text \<open>
  \<^verbatim>\<open>chatbot()\<close> for a POST request whose body is the JSON object \<open>data\<close>, behind
  \<^verbatim>\<open>@login_required\<close>. \<^verbatim>\<open>.strip()\<close> on a message that is not a string raises.
\<close>

definition chatbot :: "env \<Rightarrow> flask_session \<Rightarrow> store \<Rightarrow> dict \<Rightarrow> error + outcome" where
  "chatbot e sess db data =
     (case fs_user_id sess of
        None \<Rightarrow> Inr (Done sess db Redirect)
      | Some uid \<Rightarrow>
          (case dget_default data ''message'' (JStr []) of
             JStr m \<Rightarrow>
               (let user_message = str_strip e m;
                    action = dget data ''action'';
                    step = dget data ''step'';
                    booking_data = dget_default data ''booking_data'' (JObj [])
                in if user_message = [] \<and> \<not> truthy action then
                     Inr (Done sess db (Json (say AskQuestion)))
                   else if action = JStr ''start_booking'' then start_booking e sess db
                   else if step = JStr ''select_date'' \<or> action = JStr ''select_date'' then
                     select_date e sess db data booking_data
                   else if step = JStr ''select_time'' \<or> action = JStr ''select_time'' then
                     select_time sess db data booking_data
                   else if step = JStr ''select_visitors'' \<or> action = JStr ''select_visitors'' then
                     select_visitors e sess db data booking_data
                   else if action = JStr ''confirm_and_pay'' then confirm_and_pay e uid sess db data
                   else Inr Other)
           | _ \<Rightarrow> Inl AttributeError))"

subsection \<open>Observations of a result\<close>

text \<open>The step recorded in the stored booking state, and the parts of a request's result.\<close>

definition stored_step :: "flask_session \<Rightarrow> json" where
  "stored_step sess = (case chatbot_booking sess of None \<Rightarrow> JNull | Some b \<Rightarrow> dget b ''step'')"

fun result_session :: "error + outcome \<Rightarrow> flask_session option" where
  "result_session (Inr (Done sess db reply)) = Some sess"
| "result_session _ = None"

fun result_json :: "error + outcome \<Rightarrow> response option" where
  "result_json (Inr (Done sess db (Json r))) = Some r"
| "result_json _ = None"

subsection \<open>Sample data\<close>

text \<open>
  Concrete environments, rows and requests at which the theorems below are evaluated.
  \<open>ascii_strip\<close> and \<open>ascii_int\<close> are \<^verbatim>\<open>str.strip\<close> and \<^verbatim>\<open>int\<close> on strings of
  ASCII characters: blanks are the characters 9 to 13, 28 to 32; a number is an optional
  sign and decimal digits, with single underscores allowed between digits. In
  \<open>env0\<close> today is 2024-11-30.
\<close>

definition is_space :: "char \<Rightarrow> bool" where
  "is_space c = (c \<in> set [CHR 0x09, CHR 0x0A, CHR 0x0B, CHR 0x0C, CHR 0x0D, CHR 0x1C, CHR 0x1D,
                          CHR 0x1E, CHR 0x1F, CHR '' ''])"

definition ascii_strip :: "string \<Rightarrow> string" where
  "ascii_strip s = rev (dropWhile is_space (rev (dropWhile is_space s)))"

definition is_digit :: "char \<Rightarrow> bool" where
  "is_digit c = (c \<in> set ''0123456789'')"

definition digit_value :: "char \<Rightarrow> nat" where
  "digit_value c = of_char c - 48"

fun digits_value :: "nat \<Rightarrow> string \<Rightarrow> nat option" where
  "digits_value acc [] = Some acc"
| "digits_value acc (c # cs) =
     (if is_digit c then digits_value (acc * 10 + digit_value c) cs
      else if c = CHR ''_'' then
        (case cs of [] \<Rightarrow> None | d # _ \<Rightarrow> if is_digit d then digits_value acc cs else None)
      else None)"

definition unsigned_value :: "string \<Rightarrow> nat option" where
  "unsigned_value s = (case s of [] \<Rightarrow> None | c # _ \<Rightarrow> if is_digit c then digits_value 0 s else None)"

definition ascii_int :: "string \<Rightarrow> int option" where
  "ascii_int s =
     (case ascii_strip s of
        [] \<Rightarrow> None
      | c # cs \<Rightarrow>
          if c = CHR ''-'' then map_option (\<lambda>n. - int n) (unsigned_value cs)
          else if c = CHR ''+'' then map_option int (unsigned_value cs)
          else map_option int (unsigned_value (c # cs)))"

definition env0 :: env where
  "env0 = \<lparr>today = 739220,
           strptime_ymd = (\<lambda>s. if s = ''2024-12-20'' then Some 739240 else None),
           isoformat = (\<lambda>d. if d = 739247 then ''2024-12-27'' else ''2024-12-07''),
           str_strip = ascii_strip, int_of_str = ascii_int\<rparr>"



definition booking_state :: "json \<Rightarrow> json \<Rightarrow> json \<Rightarrow> json \<Rightarrow> dict" where
  "booking_state step d slot visitors =
     [(''step'', step), (''date'', d), (''time_slot'', slot), (''visitors'', visitors)]"



definition nine_to_ten :: string where
  "nine_to_ten = ''9AM'' @ en_dash @ ''10AM''"

definition db15 :: store where
  "db15 = empty_store\<lparr>bookings := [\<lparr>bk_id = 1, bk_user_id = 3, bk_date = 739240,
     bk_time_slot = nine_to_ten, bk_visitors = 15, bk_payment_status = ''paid'',
     bk_payment_method = None\<rparr>]\<rparr>"

definition sess_at_confirm :: flask_session where
  "sess_at_confirm = \<lparr>fs_user_id = Some 7,
     chatbot_booking = Some (booking_state (JStr ''confirm_booking'') (JStr ''2024-12-20'')
                               (JStr nine_to_ten) (JInt 10))\<rparr>"

definition confirm_request :: dict where
  "confirm_request = [(''action'', JStr ''confirm_and_pay''), (''payment_type'', JStr ''cash'')]"

definition sess_at_visitors :: flask_session where
  "sess_at_visitors = \<lparr>fs_user_id = Some 7,
     chatbot_booking = Some (booking_state (JStr ''select_visitors'') (JStr ''2024-12-20'')
                               (JStr nine_to_ten) JNull)\<rparr>"

definition zero_visitors_request :: dict where
  "zero_visitors_request = [(''action'', JStr ''select_visitors''), (''visitors'', JInt 0)]"

definition sample_context :: dict where
  "sample_context = [(''step'', JStr ''select_visitors''), (''date'', JStr ''2024-12-20'')]"

definition anon_call :: "string \<Rightarrow> call" where
  "anon_call uuid = \<lparr>c_now = 0, c_uuid = uuid, c_channel_name = ''website'', c_user_id = Some 5,
     c_channel_user_id = None, c_context = Some sample_context\<rparr>"

definition user_call :: "string \<Rightarrow> call" where
  "user_call uuid = \<lparr>c_now = 0, c_uuid = uuid, c_channel_name = ''website'', c_user_id = Some 5,
     c_channel_user_id = Some ''5'', c_context = Some sample_context\<rparr>"

definition day :: int where
  "day = timedelta_days 1"

definition sample_session :: "nat \<Rightarrow> string \<Rightarrow> datetime \<Rightarrow> ConversationSession" where
  "sample_session k st updated =
     \<lparr>cs_id = k, cs_session_id = ''s'' @ replicate k CHR ''x'', cs_user_id = Some 5,
      cs_channel_id = 1, cs_channel_user_id = Some ''5'', cs_status = st,
      cs_context = Some sample_context,
      cs_created_at = 0, cs_updated_at = updated, cs_last_activity = updated\<rparr>"

definition website_row :: Channel where
  "website_row = \<lparr>ch_id = 1, ch_name = ''website'', ch_type = ''chat'', ch_is_active = True\<rparr>"

definition website_obj :: channel_obj where
  "website_obj = \<lparr>channel_name = ''website'', channel_type = ''chat'', channel_db = website_row\<rparr>"

definition two_sessions_db :: store where
  "two_sessions_db = empty_store\<lparr>channels := [website_row],
     sessions := [sample_session 1 ''closed'' (60 * day), sample_session 2 ''active'' (60 * day)]\<rparr>"

definition sample_message :: "nat \<Rightarrow> nat \<Rightarrow> datetime \<Rightarrow> ConversationMessage" where
  "sample_message k sid created =
     \<lparr>cm_id = k, cm_session_id = sid, cm_message_type = ''text'', cm_direction = ''inbound'',
      cm_content = ''hello'', cm_created_at = created\<rparr>"

definition two_sessions_message_db :: store where
  "two_sessions_message_db = two_sessions_db\<lparr>messages := [sample_message 1 1 (50 * day)]\<rparr>"

definition source_world :: world where
  "source_world = \<lparr>w_db = empty_store\<lparr>channels := [website_row],
                             sessions := [sample_session 1 ''active'' 0]\<rparr>,
     mgr_channels = [(''website'', website_obj)]\<rparr>"

definition plain_session :: ConversationSession where
  "plain_session = (sample_session 1 ''active'' 0)\<lparr>cs_context := None\<rparr>"

definition plain_world :: world where
  "plain_world = \<lparr>w_db = empty_store\<lparr>channels := [website_row], sessions := [plain_session]\<rparr>,
     mgr_channels = [(''website'', website_obj)]\<rparr>"

definition messages_db :: store where
  "messages_db = empty_store\<lparr>messages := [sample_message 1 1 30, sample_message 2 1 10,
     sample_message 3 2 40, sample_message 4 1 20]\<rparr>"

definition sample_token :: "datetime option \<Rightarrow> bool \<Rightarrow> AuthenticationToken" where
  "sample_token expires active =
     \<lparr>at_id = 1, at_token = ''tok'', at_user_id = Some 5, at_channel_id = Some 1,
      at_expires_at = expires, at_is_active = active, at_last_used = None\<rparr>"

definition tokens_db :: "AuthenticationToken \<Rightarrow> store" where
  "tokens_db t = empty_store\<lparr>tokens := [t]\<rparr>"

section \<open>Properties\<close>

subsection \<open>Auxiliary facts\<close>

lemma first_None: "first xs = None \<longleftrightarrow> xs = []"
  by (cases xs) auto

lemma first_mem: "first xs = Some x \<Longrightarrow> x \<in> set xs"
  by (cases xs) auto

lemma sort_key_Nil: "sort_key f xs = [] \<longleftrightarrow> xs = []"
  by (metis length_sort length_0_conv)

lemma fold_max_ge: "a \<le> fold max ks (a::nat)"
  by (induction ks arbitrary: a) (auto intro: order_trans [OF max.cobounded2])

lemma fold_max_mem: "k \<in> set ks \<Longrightarrow> k \<le> fold max ks (a::nat)"
proof (induction ks arbitrary: a)
  case Nil
  then show ?case by simp
next
  case (Cons x ks)
  show ?case
  proof (cases "k = x")
    case True
    have "x \<le> max x a" by simp
    also have "\<dots> \<le> fold max ks (max x a)" by (rule fold_max_ge)
    finally show ?thesis using True by simp
  next
    case False
    then show ?thesis using Cons by simp
  qed
qed

lemma next_id_fresh: "k \<in> set ks \<Longrightarrow> k < next_id ks"
  by (simp add: next_id_def fold_max_mem less_Suc_eq_le)

lemma get_session_active:
  "get_session db ch None cuid = Some s \<Longrightarrow> cs_status s = ''active'' \<and> s \<in> set (sessions db)"
  by (auto simp: get_session_def order_by_desc_def split: if_splits dest!: first_mem)

lemma get_session_None:
  "truthy_str cuid \<Longrightarrow> get_session db ch None cuid = None \<Longrightarrow>
     active_sessions db (ch_id (channel_db ch)) cuid = []"
  by (auto simp: get_session_def order_by_desc_def active_sessions_def first_None sort_key_Nil)

lemma get_channel_sessions: "sessions (w_db (snd (get_channel w name))) = sessions (w_db w)"
  by (auto simp: get_channel_def new_channel_def BaseChannel_init_def get_or_create_channel_def Let_def
      split: option.splits if_splits prod.splits)

lemma get_channel_cached:
  "get_channel w name = (Inr ch, w1) \<Longrightarrow> map_of (mgr_channels w1) name = Some ch"
  by (auto simp: get_channel_def new_channel_def update_conv' split: option.splits if_splits prod.splits)

lemma get_channel_total:
  "name \<in> {''website'', ''instagram'', ''voice''} \<Longrightarrow> \<exists>ch w1. get_channel w name = (Inr ch, w1)"
  by (auto simp: get_channel_def new_channel_def split: option.splits prod.splits)

lemma create_session_raises:
  "create_session db ch now uuid uid cuid ctx = (Inl e, db') \<Longrightarrow> db' = db"
  by (auto simp: create_session_def Let_def split: if_splits)

lemma create_session_sessions:
  "create_session db ch now uuid uid cuid ctx = (Inr s, db') \<Longrightarrow>
     sessions db' = sessions db @ [s] \<and> cs_status s = ''active''
     \<and> cs_channel_id s = ch_id (channel_db ch) \<and> cs_channel_user_id s = cuid
     \<and> cs_user_id s = uid \<and> cs_id s = next_id (map cs_id (sessions db))"
  by (auto simp: create_session_def Let_def set_context_def split: option.splits if_splits)

lemma create_session_context:
  "create_session db ch now uuid uid cuid (Some d) = (Inr s, db') \<Longrightarrow> get_context s = d \<and> d \<noteq> []"
  by (auto simp: create_session_def Let_def set_context_def get_context_def split: if_splits)

lemma create_session_total:
  "fits_int64 uid \<Longrightarrow> d \<noteq> [] \<Longrightarrow> uuid \<notin> set (map cs_session_id (sessions db)) \<Longrightarrow>
     \<exists>s db'. create_session db ch now uuid uid cuid (Some d) = (Inr s, db')"
  by (simp add: create_session_def Let_def set_context_def)

lemma dget_update_same: "dget (AList.update k v d) k = v"
  by (simp add: dget_def update_conv')

lemma dget_update_other: "k' \<noteq> k \<Longrightarrow> dget (AList.update k v d) k' = dget d k'"
  by (simp add: dget_def update_conv')


subsection \<open>Sessions\<close>

lemma run_call_active:
  assumes "u \<noteq> []" and "length (active_sessions (w_db w) cid (Some u)) \<le> 1"
  shows "length (active_sessions (w_db (run_call w c)) cid (Some u)) \<le> 1"
proof -
  obtain r1 w1 where g: "get_channel w (c_channel_name c) = (r1, w1)"
    by (cases "get_channel w (c_channel_name c)")
  have same: "sessions (w_db w1) = sessions (w_db w)"
    using get_channel_sessions [of w "c_channel_name c"] g by simp
  have a1: "active_sessions (w_db w1) cid (Some u) = active_sessions (w_db w) cid (Some u)"
    by (simp add: active_sessions_def same)
  show ?thesis
  proof (cases r1)
    case (Inl e)
    then show ?thesis using g assms(2) a1 by (simp add: run_call_def get_or_create_session_def)
  next
    case (Inr ch)
    show ?thesis
    proof (cases "get_session (w_db w1) ch None (c_channel_user_id c)")
      case None
      obtain r db' where cr: "create_session (w_db w1) ch (c_now c) (c_uuid c) (c_user_id c)
          (c_channel_user_id c) (Some (or_empty (c_context c))) = (r, db')"
        by (cases "create_session (w_db w1) ch (c_now c) (c_uuid c) (c_user_id c)
          (c_channel_user_id c) (Some (or_empty (c_context c)))")
      have w': "run_call w c = w1\<lparr>w_db := db'\<rparr>"
        using g Inr None cr by (simp add: run_call_def get_or_create_session_def)
      show ?thesis
      proof (cases r)
        case (Inl e)
        then have "db' = w_db w1" using cr by (auto dest: create_session_raises)
        then show ?thesis using w' assms(2) a1 by simp
      next
        case r: (Inr s)
        note cs = create_session_sessions [OF cr [unfolded r]]
        show ?thesis
        proof (cases "c_channel_user_id c = Some u \<and> ch_id (channel_db ch) = cid")
          case True
          then have "active_sessions (w_db w1) cid (Some u) = []"
            using get_session_None [of "Some u" "w_db w1" ch] None assms(1) by auto
          then show ?thesis using cs w' by (simp add: active_sessions_def)
        next
          case False
          then have "active_sessions db' cid (Some u) = active_sessions (w_db w1) cid (Some u)"
            using cs by (auto simp: active_sessions_def)
          then show ?thesis using assms(2) a1 w' by simp
        qed
      qed
    next
      case (Some s0)
      then have "cs_status s0 = ''active''" by (simp add: get_session_active)
      then have "run_call w c = w1"
        using g Inr Some by (simp add: run_call_def get_or_create_session_def)
      then show ?thesis using assms(2) a1 by simp
    qed
  qed
qed

text \<open>
  C1, as stated, fails. The claim is that after any sequence of sequential calls of
  \<^verbatim>\<open>get_or_create_session\<close> every (channel, channel user) pair has at most one active
  session. \<^verbatim>\<open>get_session\<close> looks a session up only for a non-empty \<^verbatim>\<open>channel_user_id\<close>,
  so two calls without one (the default \<^verbatim>\<open>None\<close>), with a non-empty context, on the website
  channel, from the empty database, leave two active sessions for the pair
  (channel 1, \<^verbatim>\<open>None\<close>).
\<close>

theorem one_active_session_counterexample:
  "length (active_sessions (w_db (run_calls init_world [anon_call ''u1'', anon_call ''u2''])) 1 None) = 2"
  by code_simp

text \<open>
  C1, amended. For every channel and every non-empty \<^verbatim>\<open>channel_user_id\<close>: if the pair has
  at most one active session (as in the empty database), it has at most one after any
  sequence of sequential calls of \<^verbatim>\<open>get_or_create_session\<close>, whether they return or raise.
\<close>

theorem one_active_session_per_identity:
  assumes "u \<noteq> []" and "length (active_sessions (w_db w) cid (Some u)) \<le> 1"
  shows "length (active_sessions (w_db (run_calls w cs)) cid (Some u)) \<le> 1"
  using assms(2) unfolding run_calls_def
proof (induction cs arbitrary: w)
  case Nil
  then show ?case by simp
next
  case (Cons c cs)
  then show ?case using run_call_active [OF assms(1)] by simp
qed

text \<open>
  From the empty database, two calls for user \<^verbatim>\<open>5\<close> on the website channel, with a
  non-empty context, leave exactly one active session.
\<close>

theorem one_active_session_per_identity_witness:
  "''5'' \<noteq> [] \<and> length (active_sessions (w_db init_world) 1 (Some ''5'')) \<le> 1
   \<and> length (active_sessions (w_db (run_calls init_world [user_call ''u1'', user_call ''u2'']))
        1 (Some ''5'')) = 1"
proof -
  have h1: "''5'' \<noteq> []" by simp
  have h2: "length (active_sessions (w_db init_world) 1 (Some ''5'')) \<le> 1" by code_simp
  have "length (active_sessions (w_db (run_calls init_world [user_call ''u1'', user_call ''u2'']))
        1 (Some ''5'')) \<le> 1"
    using one_active_session_per_identity [OF h1 h2] .
  moreover have "length (active_sessions (w_db (run_calls init_world [user_call ''u1'', user_call ''u2'']))
        1 (Some ''5'')) \<ge> 1" by code_simp
  ultimately show ?thesis using h1 h2 by simp
qed

text \<open>
  C10. Every session returned by \<^verbatim>\<open>get_or_create_session\<close> has status \<^verbatim>\<open>active\<close> and is a row of
  the resulting database. The branch for a session that is found but not active is
  never taken: the function equals the one without that branch. The call returns a
  session for each of the three channel names when the context is not empty, the user
  fits 64 bits and the drawn \<^verbatim>\<open>session_id\<close> is new; with the default context it raises
  whenever it has to create a session.
\<close>

theorem get_or_create_session_returns_active:
  "get_or_create_session w now uuid name uid cuid ctx =
     (case get_channel w name of
        (Inl e, w1) \<Rightarrow> (Inl e, w1)
      | (Inr ch, w1) \<Rightarrow>
          (case get_session (w_db w1) ch None cuid of
             None \<Rightarrow>
               (case create_session (w_db w1) ch now uuid uid cuid (Some (or_empty ctx)) of
                  (r, db') \<Rightarrow> (r, w1\<lparr>w_db := db'\<rparr>))
           | Some s \<Rightarrow> (Inr s, w1)))
   \<and> (\<forall>s w'. get_or_create_session w now uuid name uid cuid ctx = (Inr s, w')
        \<longrightarrow> cs_status s = ''active'' \<and> s \<in> set (sessions (w_db w')))
   \<and> (name \<in> {''website'', ''instagram'', ''voice''} \<and> fits_int64 uid \<and> or_empty ctx \<noteq> []
      \<and> uuid \<notin> set (map cs_session_id (sessions (w_db w)))
        \<longrightarrow> (\<exists>s w'. get_or_create_session w now uuid name uid cuid ctx = (Inr s, w')))"
proof (intro conjI allI impI)
  show "get_or_create_session w now uuid name uid cuid ctx =
     (case get_channel w name of
        (Inl e, w1) \<Rightarrow> (Inl e, w1)
      | (Inr ch, w1) \<Rightarrow>
          (case get_session (w_db w1) ch None cuid of
             None \<Rightarrow>
               (case create_session (w_db w1) ch now uuid uid cuid (Some (or_empty ctx)) of
                  (r, db') \<Rightarrow> (r, w1\<lparr>w_db := db'\<rparr>))
           | Some s \<Rightarrow> (Inr s, w1)))"
    by (auto simp: get_or_create_session_def split: sum.splits option.splits prod.splits
        dest: get_session_active)
next
  fix s w'
  assume r: "get_or_create_session w now uuid name uid cuid ctx = (Inr s, w')"
  then show "cs_status s = ''active''"
    by (auto simp: get_or_create_session_def split: sum.splits option.splits prod.splits if_splits
        dest: create_session_sessions get_session_active)
  from r show "s \<in> set (sessions (w_db w'))"
    by (auto simp: get_or_create_session_def split: sum.splits option.splits prod.splits if_splits
        dest: create_session_sessions get_session_active)
next
  assume a: "name \<in> {''website'', ''instagram'', ''voice''} \<and> fits_int64 uid \<and> or_empty ctx \<noteq> []
      \<and> uuid \<notin> set (map cs_session_id (sessions (w_db w)))"
  then obtain ch w1 where g: "get_channel w name = (Inr ch, w1)"
    using get_channel_total by blast
  have "sessions (w_db w1) = sessions (w_db w)"
    using get_channel_sessions [of w name] g by simp
  then have "\<exists>s db'. create_session (w_db w1) ch now uuid uid cuid (Some (or_empty ctx)) = (Inr s, db')"
    using a by (intro create_session_total) auto
  then show "\<exists>s w'. get_or_create_session w now uuid name uid cuid ctx = (Inr s, w')"
    using g by (auto simp: get_or_create_session_def split: option.splits)
qed

theorem get_or_create_session_returns_active_witness:
  "\<exists>s w'. get_or_create_session init_world 0 ''u1'' ''website'' (Some 5) (Some ''5'')
             (Some sample_context) = (Inr s, w')
          \<and> cs_status s = ''active'' \<and> s \<in> set (sessions (w_db w'))"
proof -
  note t = get_or_create_session_returns_active
             [of init_world 0 "''u1''" "''website''" "Some 5" "Some ''5''" "Some sample_context"]
  have h: "''website'' \<in> {''website'', ''instagram'', ''voice''} \<and> fits_int64 (Some 5)
      \<and> or_empty (Some sample_context) \<noteq> []
      \<and> ''u1'' \<notin> set (map cs_session_id (sessions (w_db init_world)))"
    by code_simp
  have "\<exists>s w'. get_or_create_session init_world 0 ''u1'' ''website'' (Some 5) (Some ''5'')
                 (Some sample_context) = (Inr s, w')"
    using t [THEN conjunct2, THEN conjunct2, rule_format, OF h] .
  then show ?thesis
    using t [THEN conjunct2, THEN conjunct1] by blast
qed

lemma fold_delete_sessions:
  "sessions (fold delete_session xs db) = filter (\<lambda>r. cs_id r \<notin> cs_id ` set xs) (sessions db)"
  by (induction xs arbitrary: db) (auto simp: delete_session_def intro: filter_cong)

lemma filter_ids_distinct:
  assumes "distinct (map cs_id rows)"
  shows "filter (\<lambda>r. cs_id r \<notin> cs_id ` set (filter P rows)) rows = filter (\<lambda>r. \<not> P r) rows"
proof (rule filter_cong [OF refl])
  fix r assume r: "r \<in> set rows"
  have inj: "inj_on cs_id (set rows)" using assms by (simp add: distinct_map)
  show "(cs_id r \<notin> cs_id ` set (filter P rows)) = (\<not> P r)"
    using r inj by (auto dest: inj_onD)
qed

text \<open>
  C4 does not hold of the code. The claim is that \<^verbatim>\<open>cleanup_old_sessions\<close> deletes exactly
  the closed sessions older than the cutoff and returns how many. With a closed session
  last updated 40 days ago that has one message, \<^verbatim>\<open>cleanup_old_sessions(30)\<close> raises
  \<^verbatim>\<open>IntegrityError\<close> and deletes nothing: the message would be left without a session.
\<close>

theorem cleanup_old_sessions_raises_with_message:
  "cleanup_old_sessions two_sessions_message_db (100 * day) 30
     = (Inl IntegrityError, two_sessions_message_db)
   \<and> filter (old_closed (100 * day - timedelta_days 30)) (sessions two_sessions_message_db)
       = [sample_session 1 ''closed'' (60 * day)]
   \<and> has_messages two_sessions_message_db (sample_session 1 ''closed'' (60 * day))"
  by code_simp

text \<open>
  When none of the old closed sessions has a message (the primary keys are distinct
  and the cutoff is a \<^verbatim>\<open>datetime\<close>), the call returns the number of those sessions and removes exactly them;
  every other session stays as it was, whatever its age.
\<close>

theorem cleanup_old_sessions_only_closed:
  assumes "distinct (map cs_id (sessions db))"
    and "\<forall>s \<in> set (sessions db).
           cs_status s = ''closed'' \<and> cs_updated_at s < now - timedelta_days days_inactive
           \<longrightarrow> \<not> has_messages db s"
    and "\<bar>days_inactive\<bar> \<le> 999999999"
    and "0 \<le> now - timedelta_days days_inactive"
    and "now - timedelta_days days_inactive \<le> datetime_max"
  shows "\<exists>db'. cleanup_old_sessions db now days_inactive
                 = (Inr (length (filter (\<lambda>s. cs_status s = ''closed''
                       \<and> cs_updated_at s < now - timedelta_days days_inactive) (sessions db))), db')
       \<and> sessions db' =
           filter (\<lambda>s. \<not> (cs_status s = ''closed''
                           \<and> cs_updated_at s < now - timedelta_days days_inactive)) (sessions db)
       \<and> (\<forall>s \<in> set (sessions db).
            cs_status s \<in> {''active'', ''escalated'', ''transferred''} \<longrightarrow> s \<in> set (sessions db'))"
proof -
  let ?P = "\<lambda>s. cs_status s = ''closed'' \<and> cs_updated_at s < now - timedelta_days days_inactive"
  have P: "old_closed (now - timedelta_days days_inactive) = ?P"
    by (rule ext) (simp add: old_closed_def)
  have no: "\<not> list_ex (has_messages db) (filter ?P (sessions db))"
    using assms(2) by (auto simp: list_ex_iff)
  let ?db' = "fold delete_session (filter ?P (sessions db)) db"
  have c: "cutoff_of now days_inactive = Some (now - timedelta_days days_inactive)"
    using assms(3-5) by (simp add: cutoff_of_def)
  have r: "cleanup_old_sessions db now days_inactive = (Inr (length (filter ?P (sessions db))), ?db')"
    using no by (simp add: cleanup_old_sessions_def Let_def P c)
  have s: "sessions ?db' = filter (\<lambda>s. \<not> ?P s) (sessions db)"
    using filter_ids_distinct [OF assms(1), of ?P] by (simp add: fold_delete_sessions)
  show ?thesis using r s by auto
qed

text \<open>
  With a closed and an active session, both last updated 40 days ago and without
  messages, \<^verbatim>\<open>cleanup_old_sessions(30)\<close> deletes the closed one only and returns 1.
\<close>

theorem cleanup_old_sessions_only_closed_witness:
  "cleanup_old_sessions two_sessions_db (100 * day) 30
     = (Inr 1, two_sessions_db\<lparr>sessions := [sample_session 2 ''active'' (60 * day)]\<rparr>)"
proof -
  have h1: "distinct (map cs_id (sessions two_sessions_db))" by code_simp
  have h2: "\<forall>s \<in> set (sessions two_sessions_db).
           cs_status s = ''closed'' \<and> cs_updated_at s < 100 * day - timedelta_days 30
           \<longrightarrow> \<not> has_messages two_sessions_db s"
    by code_simp
  have h3: "\<bar>30::int\<bar> \<le> 999999999" by simp
  have h4: "0 \<le> 100 * day - timedelta_days 30" by code_simp
  have h5: "100 * day - timedelta_days 30 \<le> datetime_max" by code_simp
  from cleanup_old_sessions_only_closed [OF h1 h2 h3 h4 h5]
  have "fst (cleanup_old_sessions two_sessions_db (100 * day) 30)
          = Inr (length (filter (\<lambda>s. cs_status s = ''closed''
                       \<and> cs_updated_at s < 100 * day - timedelta_days 30) (sessions two_sessions_db)))"
    by auto
  moreover have "length (filter (\<lambda>s. cs_status s = ''closed''
                       \<and> cs_updated_at s < 100 * day - timedelta_days 30) (sessions two_sessions_db)) = 1"
    by code_simp
  moreover have "snd (cleanup_old_sessions two_sessions_db (100 * day) 30)
          = two_sessions_db\<lparr>sessions := [sample_session 2 ''active'' (60 * day)]\<rparr>"
    by code_simp
  ultimately show ?thesis by (simp add: prod_eq_iff)
qed

lemma mark_transferred_sessions:
  "sessions (mark_transferred now s db) =
     map (\<lambda>r. if cs_id r = cs_id s then r\<lparr>cs_status := ''transferred'', cs_updated_at := now\<rparr> else r)
       (sessions db)"
  by (simp add: mark_transferred_def)

text \<open>
  C5 does not hold of the code. The claim is that for every session
  \<^verbatim>\<open>transfer_session\<close> creates a session on the target channel with the source's context
  and marks the source \<^verbatim>\<open>transferred\<close>. For a stored source whose context column is
  \<^verbatim>\<open>NULL\<close> (a session created without a context) the context read is the empty dictionary,
  \<^verbatim>\<open>create_session\<close> raises on it, no session is created and the source stays
  \<^verbatim>\<open>active\<close>.
\<close>

theorem transfer_session_raises_on_empty_context:
  "plain_session \<in> set (sessions (w_db plain_world))
   \<and> get_context plain_session = []
   \<and> fst (transfer_session plain_world 5 ''s2'' plain_session ''instagram'' (Some ''ig9''))
       = Inl DBAPIError
   \<and> sessions (w_db (snd (transfer_session plain_world 5 ''s2'' plain_session ''instagram''
                            (Some ''ig9'')))) = [plain_session]
   \<and> cs_status plain_session = ''active''"
  by code_simp

text \<open>
  When the call returns, the new session is active, is stored for the target channel
  and target user, and its context equals the source's; the source's status is
  \<^verbatim>\<open>transferred\<close> and no lookup of an active session by \<^verbatim>\<open>channel_user_id\<close>, on any channel,
  returns the source. The call returns for each of the three channel names when the
  source's context is not empty, its user fits 64 bits and the drawn \<^verbatim>\<open>session_id\<close> is
  new.
\<close>

theorem transfer_session_copies_context:
  "(session \<in> set (sessions (w_db w))
     \<and> transfer_session w now uuid session name tcuid = (Inr new, w')
    \<longrightarrow> get_context new = get_context session
        \<and> new \<in> set (sessions (w_db w'))
        \<and> cs_status new = ''active''
        \<and> cs_channel_user_id new = tcuid
        \<and> cs_user_id new = cs_user_id session
        \<and> (\<exists>ch. map_of (mgr_channels w') name = Some ch
                \<and> cs_channel_id new = ch_id (channel_db ch))
        \<and> (\<exists>r \<in> set (sessions (w_db w')). cs_id r = cs_id session)
        \<and> (\<forall>r \<in> set (sessions (w_db w')).
              cs_id r = cs_id session \<longrightarrow> cs_status r = ''transferred'')
        \<and> (\<forall>ch cuid r. get_session (w_db w') ch None cuid = Some r
              \<longrightarrow> cs_id r \<noteq> cs_id session))
   \<and> (name \<in> {''website'', ''instagram'', ''voice''} \<and> fits_int64 (cs_user_id session)
      \<and> get_context session \<noteq> []
      \<and> uuid \<notin> set (map cs_session_id (sessions (w_db w)))
        \<longrightarrow> (\<exists>new w'. transfer_session w now uuid session name tcuid = (Inr new, w')))"
proof (intro conjI impI)
  assume a: "name \<in> {''website'', ''instagram'', ''voice''} \<and> fits_int64 (cs_user_id session)
      \<and> get_context session \<noteq> []
      \<and> uuid \<notin> set (map cs_session_id (sessions (w_db w)))"
  then obtain ch w1 where g: "get_channel w name = (Inr ch, w1)"
    using get_channel_total by blast
  have "sessions (w_db w1) = sessions (w_db w)"
    using get_channel_sessions [of w name] g by simp
  then have "\<exists>s db'. create_session (w_db w1) ch now uuid (cs_user_id session) tcuid
                        (Some (get_context session)) = (Inr s, db')"
    using a by (intro create_session_total) auto
  then show "\<exists>new w'. transfer_session w now uuid session name tcuid = (Inr new, w')"
    using g by (auto simp: transfer_session_def Let_def)
next
  assume a: "session \<in> set (sessions (w_db w))
     \<and> transfer_session w now uuid session name tcuid = (Inr new, w')"
  then obtain ch w1 where g: "get_channel w name = (Inr ch, w1)"
    by (auto simp: transfer_session_def split: sum.splits prod.splits)
  obtain db' where cr: "create_session (w_db w1) ch now uuid (cs_user_id session) tcuid
      (Some (get_context session)) = (Inr new, db')"
    and w': "w' = w1\<lparr>w_db := mark_transferred now session db'\<rparr>"
    using a g by (auto simp: transfer_session_def Let_def split: prod.splits sum.splits)
  note cs = create_session_sessions [OF cr]
  have same: "sessions (w_db w1) = sessions (w_db w)"
    using get_channel_sessions [of w name] g by simp
  have fresh: "cs_id new \<noteq> cs_id session"
    using next_id_fresh [of "cs_id session" "map cs_id (sessions (w_db w))"] a cs same by auto
  have all: "sessions (w_db w') =
     map (\<lambda>r. if cs_id r = cs_id session then r\<lparr>cs_status := ''transferred'', cs_updated_at := now\<rparr> else r)
       (sessions (w_db w) @ [new])"
    using w' cs same by (simp add: mark_transferred_sessions)
  have tr: "\<forall>r \<in> set (sessions (w_db w')). cs_id r = cs_id session \<longrightarrow> cs_status r = ''transferred''"
    unfolding all by auto
  show "get_context new = get_context session" using create_session_context [OF cr] by simp
  show "new \<in> set (sessions (w_db w'))" unfolding all using fresh by simp
  show "cs_status new = ''active''" using cs by simp
  show "cs_channel_user_id new = tcuid" using cs by simp
  show "cs_user_id new = cs_user_id session" using cs by simp
  show "\<exists>ch. map_of (mgr_channels w') name = Some ch \<and> cs_channel_id new = ch_id (channel_db ch)"
    using get_channel_cached [OF g] cs w' by simp
  show "\<exists>r \<in> set (sessions (w_db w')). cs_id r = cs_id session"
    unfolding all using a by (auto intro!: bexI [of _ "session\<lparr>cs_status := ''transferred'', cs_updated_at := now\<rparr>"] simp: image_iff)
  show "\<forall>r \<in> set (sessions (w_db w')). cs_id r = cs_id session \<longrightarrow> cs_status r = ''transferred''"
    by (rule tr)
  show "\<forall>ch cuid r. get_session (w_db w') ch None cuid = Some r \<longrightarrow> cs_id r \<noteq> cs_id session"
  proof (intro allI impI)
    fix ch cuid r
    assume "get_session (w_db w') ch None cuid = Some r"
    then have "cs_status r = ''active'' \<and> r \<in> set (sessions (w_db w'))"
      by (rule get_session_active)
    then show "cs_id r \<noteq> cs_id session" using tr by auto
  qed
qed

text \<open>
  A website session with context \<^verbatim>\<open>{step: select_visitors, date: 2024-12-20}\<close> transferred
  to instagram.
\<close>

theorem transfer_session_copies_context_witness:
  "\<exists>new w'. transfer_session source_world 5 ''s2'' (sample_session 1 ''active'' 0) ''instagram''
               (Some ''ig9'') = (Inr new, w')
     \<and> get_context new = sample_context
     \<and> cs_status new = ''active''
     \<and> (\<forall>r \<in> set (sessions (w_db w')). cs_id r = 1 \<longrightarrow> cs_status r = ''transferred'')
     \<and> (\<forall>ch cuid r. get_session (w_db w') ch None cuid = Some r \<longrightarrow> cs_id r \<noteq> 1)"
proof -
  note t = transfer_session_copies_context
             [of "sample_session 1 ''active'' 0" source_world 5 "''s2''" "''instagram''" "Some ''ig9''"]
  have h: "''instagram'' \<in> {''website'', ''instagram'', ''voice''}
      \<and> fits_int64 (cs_user_id (sample_session 1 ''active'' 0))
      \<and> get_context (sample_session 1 ''active'' 0) \<noteq> []
      \<and> ''s2'' \<notin> set (map cs_session_id (sessions (w_db source_world)))"
    by code_simp
  have "\<exists>new w'. transfer_session source_world 5 ''s2'' (sample_session 1 ''active'' 0)
          ''instagram'' (Some ''ig9'') = (Inr new, w')"
    using t [THEN conjunct2, rule_format, OF h] .
  then obtain new w' where r: "transfer_session source_world 5 ''s2''
      (sample_session 1 ''active'' 0) ''instagram'' (Some ''ig9'') = (Inr new, w')" by blast
  have m: "sample_session 1 ''active'' 0 \<in> set (sessions (w_db source_world))"
    by (simp add: source_world_def)
  have c: "get_context (sample_session 1 ''active'' 0) = sample_context"
    by (simp add: get_context_def sample_session_def)
  have i: "cs_id (sample_session 1 ''active'' 0) = 1" by (simp add: sample_session_def)
  show ?thesis
    using t [of new w', THEN conjunct1, rule_format, OF conjI [OF m r]] r unfolding c i by blast
qed

lemma sorted_rev_desc:
  "sorted (map (\<lambda>r. - key r) xs) \<Longrightarrow> sorted (map key (rev xs))" for key :: "'a \<Rightarrow> int"
  by (induction xs) (auto simp: sorted_append)

text \<open>
  C6. For every session and limit, \<^verbatim>\<open>get_conversation_history\<close> returns at most
  \<open>limit\<close> messages, all of that session, in non-decreasing order of creation time,
  whatever the order of the table.
\<close>

theorem conversation_history_chronological:
  "length (get_conversation_history db session limit) \<le> limit
   \<and> sorted (map cm_created_at (get_conversation_history db session limit))
   \<and> set (get_conversation_history db session limit)
       \<subseteq> {m \<in> set (messages db). cm_session_id m = cs_id session}"
proof (intro conjI)
  let ?q = "order_by_desc cm_created_at (filter (\<lambda>m. cm_session_id m = cs_id session) (messages db))"
  show "length (get_conversation_history db session limit) \<le> limit"
    by (simp add: get_conversation_history_def)
  have "sorted (map (\<lambda>r. - cm_created_at r) ?q)"
    by (simp add: order_by_desc_def)
  then have "sorted (map (\<lambda>r. - cm_created_at r) (take limit ?q))"
    by (simp add: take_map [symmetric] sorted_wrt_take)
  then show "sorted (map cm_created_at (get_conversation_history db session limit))"
    unfolding get_conversation_history_def by (rule sorted_rev_desc)
  have "set (take limit ?q) \<subseteq> set ?q" by (rule set_take_subset)
  then show "set (get_conversation_history db session limit)
       \<subseteq> {m \<in> set (messages db). cm_session_id m = cs_id session}"
    by (auto simp: get_conversation_history_def order_by_desc_def)
qed

theorem conversation_history_chronological_witness:
  "length (get_conversation_history messages_db (sample_session 1 ''active'' 0) 2) \<le> 2
   \<and> sorted (map cm_created_at (get_conversation_history messages_db (sample_session 1 ''active'' 0) 2))
   \<and> map cm_created_at (get_conversation_history messages_db (sample_session 1 ''active'' 0) 2)
       = [20, 30]"
proof -
  have "map cm_created_at (get_conversation_history messages_db (sample_session 1 ''active'' 0) 2)
       = [20, 30]" by code_simp
  then show ?thesis
    using conversation_history_chronological [of messages_db "sample_session 1 ''active'' 0" 2]
    by blast
qed

subsection \<open>Authentication\<close>

text \<open>
  C7. A token whose \<^verbatim>\<open>expires_at\<close> is in the past is rejected by
  \<^verbatim>\<open>WebsiteChannel.authenticate\<close>, active or not, and the database is unchanged
  (tokens are unique). And \<^verbatim>\<open>last_used\<close> is written only when authentication
  succeeds: either the database is unchanged and the result is \<^verbatim>\<open>None\<close>, or the
  token names an active, unexpired token of this channel, the result is its
  \<^verbatim>\<open>user_id\<close>, and the only change is its \<^verbatim>\<open>last_used\<close>.
\<close>

theorem website_authenticate_rejects_expired:
  "(r \<in> set (tokens db) \<and> at_expires_at r = Some e \<and> e < now
     \<and> (\<forall>t \<in> set (tokens db). at_token t = at_token r \<longrightarrow> t = r)
    \<longrightarrow> WebsiteChannel_authenticate db ch now (Some (at_token r)) = (db, None))
   \<and> (WebsiteChannel_authenticate db ch now token = (db', res)
    \<longrightarrow> (db' = db \<and> res = None)
        \<or> (\<exists>t \<in> set (tokens db).
              Some (at_token t) = token \<and> at_channel_id t = Some (ch_id (channel_db ch))
              \<and> at_is_active t \<and> (\<forall>x. at_expires_at t = Some x \<longrightarrow> now \<le> x)
              \<and> res = at_user_id t \<and> db' = touch_token now t db))"
proof (intro conjI impI)
  assume a: "r \<in> set (tokens db) \<and> at_expires_at r = Some e \<and> e < now
     \<and> (\<forall>t \<in> set (tokens db). at_token t = at_token r \<longrightarrow> t = r)"
  show "WebsiteChannel_authenticate db ch now (Some (at_token r)) = (db, None)"
  proof (cases "first (filter (\<lambda>t. Some (at_token t) = Some (at_token r)
                                  \<and> at_channel_id t = Some (ch_id (channel_db ch))
                                  \<and> at_is_active t) (tokens db))")
    case None
    then show ?thesis by (simp add: WebsiteChannel_authenticate_def)
  next
    case (Some t)
    then have "t \<in> set (tokens db) \<and> at_token t = at_token r"
      by (auto dest!: first_mem)
    then have "t = r" using a by blast
    then have "\<not> is_valid now t" using a by (simp add: is_valid_def)
    then show ?thesis using Some by (simp add: WebsiteChannel_authenticate_def)
  qed
next
  assume "WebsiteChannel_authenticate db ch now token = (db', res)"
  then show "(db' = db \<and> res = None)
        \<or> (\<exists>t \<in> set (tokens db).
              Some (at_token t) = token \<and> at_channel_id t = Some (ch_id (channel_db ch))
              \<and> at_is_active t \<and> (\<forall>x. at_expires_at t = Some x \<longrightarrow> now \<le> x)
              \<and> res = at_user_id t \<and> db' = touch_token now t db)"
    by (auto simp: WebsiteChannel_authenticate_def is_valid_def
        split: if_splits option.splits dest!: first_mem)
qed

text \<open>
  At time 100 a token that expired at 50 is rejected; one that expires at 150 is
  accepted.
\<close>

theorem website_authenticate_rejects_expired_witness:
  "WebsiteChannel_authenticate (tokens_db (sample_token (Some 50) True)) website_obj 100 (Some ''tok'')
     = (tokens_db (sample_token (Some 50) True), None)
   \<and> WebsiteChannel_authenticate (tokens_db (sample_token (Some 150) True)) website_obj 100 (Some ''tok'')
     = (touch_token 100 (sample_token (Some 150) True) (tokens_db (sample_token (Some 150) True)),
        Some 5)"
proof -
  have h: "sample_token (Some 50) True \<in> set (tokens (tokens_db (sample_token (Some 50) True)))
     \<and> at_expires_at (sample_token (Some 50) True) = Some 50 \<and> (50::int) < 100
     \<and> (\<forall>t \<in> set (tokens (tokens_db (sample_token (Some 50) True))).
           at_token t = at_token (sample_token (Some 50) True) \<longrightarrow> t = sample_token (Some 50) True)"
    by (simp add: tokens_db_def sample_token_def empty_store_def)
  have tok: "at_token (sample_token (Some 50) True) = ''tok''" by (simp add: sample_token_def)
  have a: "WebsiteChannel_authenticate (tokens_db (sample_token (Some 50) True)) website_obj 100
             (Some ''tok'') = (tokens_db (sample_token (Some 50) True), None)"
    using website_authenticate_rejects_expired
            [of "sample_token (Some 50) True" "tokens_db (sample_token (Some 50) True)" 50 100
                website_obj, THEN conjunct1, rule_format, OF h]
    unfolding tok .
  have b: "WebsiteChannel_authenticate (tokens_db (sample_token (Some 150) True)) website_obj 100
      (Some ''tok'')
     = (touch_token 100 (sample_token (Some 150) True) (tokens_db (sample_token (Some 150) True)),
        Some 5)"
    by code_simp
  show ?thesis using a b by simp
qed



subsection \<open>The booking dialogue\<close>




lemma select_date_store:
  "select_date e sess db data bd = Inr (Done sess' db' reply) \<Longrightarrow> db' = db"
  by (auto simp: select_date_def Let_def split: sum.splits if_splits option.splits)

lemma select_time_store:
  "select_time sess db data bd = Inr (Done sess' db' reply) \<Longrightarrow> db' = db"
  by (auto simp: select_time_def Let_def split: sum.splits if_splits option.splits)

lemma select_visitors_store:
  "select_visitors e sess db data bd = Inr (Done sess' db' reply) \<Longrightarrow> db' = db"
  by (auto simp: select_visitors_def Let_def split: sum.splits if_splits option.splits)

lemma start_booking_store:
  "start_booking e sess db = Inr (Done sess' db' reply) \<Longrightarrow> db' = db"
  by (auto simp: start_booking_def Let_def split: option.splits)

lemma slot_booked_text:
  "slot_text v = Some slot \<Longrightarrow> slot_booked db d v = booked_sum db d slot"
  by (cases v) (auto simp: slot_booked_def split: if_splits)

lemma confirm_booking_store:
  "confirm_booking e uid sess db pt date_str time_slot visitors = Done sess' db' reply \<Longrightarrow>
     bookings db' = bookings db
     \<or> (\<exists>b booked cap. bookings db' = bookings db @ [b]
            \<and> booked_sum db (bk_date b) (bk_time_slot b) = Some booked
            \<and> slot_text time_slot = Some (bk_time_slot b) \<and> capacity_of time_slot = Inr cap
            \<and> booked + bk_visitors b \<le> cap)"
  by (auto simp: confirm_booking_def booking_failed_def Let_def slot_booked_text
      split: option.splits sum.splits if_splits)

lemma confirm_and_pay_store:
  "confirm_and_pay e uid sess db data = Inr (Done sess' db' reply) \<Longrightarrow>
     bookings db' = bookings db
     \<or> (\<exists>b booked cap v. bookings db' = bookings db @ [b]
            \<and> booked_sum db (bk_date b) (bk_time_slot b) = Some booked
            \<and> slot_text v = Some (bk_time_slot b) \<and> capacity_of v = Inr cap
            \<and> booked + bk_visitors b \<le> cap)"
  unfolding confirm_and_pay_def
  by (auto split: sum.splits option.splits prod.splits dest!: confirm_booking_store)

lemma chatbot_store:
  assumes "chatbot e sess db data = Inr (Done sess' db' reply)"
  shows "bookings db' = bookings db
     \<or> (\<exists>b booked cap v. bookings db' = bookings db @ [b]
            \<and> booked_sum db (bk_date b) (bk_time_slot b) = Some booked
            \<and> slot_text v = Some (bk_time_slot b) \<and> capacity_of v = Inr cap
            \<and> booked + bk_visitors b \<le> cap)"
proof (cases "fs_user_id sess")
  case None
  then show ?thesis using assms by (simp add: chatbot_def)
next
  case (Some uid)
  show ?thesis
  proof (cases "dget_default data ''message'' (JStr [])")
    case (JStr m)
    let ?bd = "dget_default data ''booking_data'' (JObj [])"
    from assms Some JStr
    consider "db' = db"
      | "start_booking e sess db = Inr (Done sess' db' reply)"
      | "select_date e sess db data ?bd = Inr (Done sess' db' reply)"
      | "select_time sess db data ?bd = Inr (Done sess' db' reply)"
      | "select_visitors e sess db data ?bd = Inr (Done sess' db' reply)"
      | "confirm_and_pay e uid sess db data = Inr (Done sess' db' reply)"
      by (auto simp: chatbot_def Let_def split: if_splits)
    then show ?thesis
    proof cases
      case 1 then show ?thesis by simp
    next
      case 2 then show ?thesis by (auto dest: start_booking_store)
    next
      case 3 then show ?thesis by (auto dest: select_date_store)
    next
      case 4 then show ?thesis by (auto dest: select_time_store)
    next
      case 5 then show ?thesis by (auto dest: select_visitors_store)
    next
      case 6 then show ?thesis by (rule confirm_and_pay_store)
    qed
  qed (use assms Some in \<open>simp_all add: chatbot_def\<close>)
qed

lemma chatbot_confirm:
  assumes "fs_user_id sess = Some uid"
    and "dget_default data ''message'' (JStr []) = JStr m"
    and "dget data ''action'' = JStr ''confirm_and_pay''"
    and "dget data ''step'' \<notin> {JStr ''select_date'', JStr ''select_time'', JStr ''select_visitors''}"
  shows "chatbot e sess db data = confirm_and_pay e uid sess db data"
  using assms by (simp add: chatbot_def Let_def)

text \<open>
  C3. At \<^verbatim>\<open>confirm_and_pay\<close>, for every date, slot and visitor count: if the visitors
  already booked for the date and slot plus the requested visitors exceed the slot's
  capacity, no booking is created and the reply reports the remaining places
  \<open>max 0 (capacity - booked)\<close> and names the step \<^verbatim>\<open>select_time\<close>; otherwise the booking
  is created, unless the database refuses the row (a count or user outside 64 bits,
  a slot without text), which is answered as an error with no booking. And a request creates
  at most one booking, and only one that fits the capacity of its slot at that moment.
\<close>

theorem confirm_and_pay_capacity_recheck:
  "(fs_user_id sess = Some uid
     \<and> dget_default data ''message'' (JStr []) = JStr m
     \<and> dget data ''action'' = JStr ''confirm_and_pay''
     \<and> dget data ''step'' \<notin> {JStr ''select_date'', JStr ''select_time'', JStr ''select_visitors''}
     \<and> confirm_inputs e sess data = Inr (sess1, Some (date_str, time_slot, visitors))
     \<and> parse_date e date_str = Some d
     \<and> slot_booked db d time_slot = Some booked
     \<and> capacity_of time_slot = Inr capacity
    \<longrightarrow> (if booked + visitors > capacity
         then \<exists>r. chatbot e sess db data = Inr (Done sess1 db (Json r))
                \<and> r_response r = Some (OnlyAvailable (max 0 (capacity - booked)) time_slot)
                \<and> r_step r = Some ''select_time''
                \<and> r_booking r = None \<and> \<not> r_success r
         else if int64 visitors \<and> int64 (int uid) \<and> slot_text time_slot \<noteq> None
         then \<exists>b r. chatbot e sess db data
                    = Inr (Done (sess1\<lparr>chatbot_booking := None\<rparr>)
                             (db\<lparr>bookings := bookings db @ [b]\<rparr>) (Json r))
                \<and> bk_user_id b = uid \<and> bk_date b = d
                \<and> Some (bk_time_slot b) = slot_text time_slot
                \<and> bk_visitors b = visitors
                \<and> r_booking r = Some b \<and> r_success r
         else chatbot e sess db data = Inr (booking_failed sess1 db)))
   \<and> (chatbot e sess db data = Inr (Done sess' db' reply)
    \<longrightarrow> bookings db' = bookings db
        \<or> (\<exists>b booked cap v. bookings db' = bookings db @ [b]
               \<and> booked_sum db (bk_date b) (bk_time_slot b) = Some booked
               \<and> slot_text v = Some (bk_time_slot b) \<and> capacity_of v = Inr cap
               \<and> booked + bk_visitors b \<le> cap))"
proof (intro conjI impI)
  assume "chatbot e sess db data = Inr (Done sess' db' reply)"
  then show "bookings db' = bookings db
        \<or> (\<exists>b booked cap v. bookings db' = bookings db @ [b]
               \<and> booked_sum db (bk_date b) (bk_time_slot b) = Some booked
               \<and> slot_text v = Some (bk_time_slot b) \<and> capacity_of v = Inr cap
               \<and> booked + bk_visitors b \<le> cap)"
    by (rule chatbot_store)
next
  assume a: "fs_user_id sess = Some uid
     \<and> dget_default data ''message'' (JStr []) = JStr m
     \<and> dget data ''action'' = JStr ''confirm_and_pay''
     \<and> dget data ''step'' \<notin> {JStr ''select_date'', JStr ''select_time'', JStr ''select_visitors''}
     \<and> confirm_inputs e sess data = Inr (sess1, Some (date_str, time_slot, visitors))
     \<and> parse_date e date_str = Some d
     \<and> slot_booked db d time_slot = Some booked
     \<and> capacity_of time_slot = Inr capacity"
  then have c: "chatbot e sess db data = confirm_and_pay e uid sess db data"
    using chatbot_confirm by blast
  show "if booked + visitors > capacity
         then \<exists>r. chatbot e sess db data = Inr (Done sess1 db (Json r))
                \<and> r_response r = Some (OnlyAvailable (max 0 (capacity - booked)) time_slot)
                \<and> r_step r = Some ''select_time''
                \<and> r_booking r = None \<and> \<not> r_success r
         else if int64 visitors \<and> int64 (int uid) \<and> slot_text time_slot \<noteq> None
         then \<exists>b r. chatbot e sess db data
                    = Inr (Done (sess1\<lparr>chatbot_booking := None\<rparr>)
                             (db\<lparr>bookings := bookings db @ [b]\<rparr>) (Json r))
                \<and> bk_user_id b = uid \<and> bk_date b = d
                \<and> Some (bk_time_slot b) = slot_text time_slot
                \<and> bk_visitors b = visitors
                \<and> r_booking r = Some b \<and> r_success r
         else chatbot e sess db data = Inr (booking_failed sess1 db)"
    unfolding c confirm_and_pay_def confirm_booking_def using a
    by (auto simp: Let_def say_def split: option.splits)
qed

text \<open>
  With 15 of 20 places booked, a request for 10 visitors is rejected and 5 remaining
  places are reported.
\<close>

theorem confirm_and_pay_capacity_recheck_witness:
  "\<exists>r. chatbot env0 sess_at_confirm db15 confirm_request = Inr (Done sess_at_confirm db15 (Json r))
       \<and> r_response r = Some (OnlyAvailable 5 (JStr nine_to_ten))
       \<and> r_step r = Some ''select_time'' \<and> r_booking r = None"
proof -
  have h: "fs_user_id sess_at_confirm = Some 7
     \<and> dget_default confirm_request ''message'' (JStr []) = JStr []
     \<and> dget confirm_request ''action'' = JStr ''confirm_and_pay''
     \<and> dget confirm_request ''step''
         \<notin> {JStr ''select_date'', JStr ''select_time'', JStr ''select_visitors''}
     \<and> confirm_inputs env0 sess_at_confirm confirm_request
         = Inr (sess_at_confirm, Some (JStr ''2024-12-20'', JStr nine_to_ten, 10))
     \<and> parse_date env0 (JStr ''2024-12-20'') = Some 739240
     \<and> slot_booked db15 739240 (JStr nine_to_ten) = Some 15
     \<and> capacity_of (JStr nine_to_ten) = Inr 20"
    by code_simp
  have "\<exists>r. chatbot env0 sess_at_confirm db15 confirm_request
               = Inr (Done sess_at_confirm db15 (Json r))
       \<and> r_response r = Some (OnlyAvailable 5 (JStr nine_to_ten))
       \<and> r_step r = Some ''select_time'' \<and> r_booking r = None \<and> \<not> r_success r"
    using confirm_and_pay_capacity_recheck
            [of sess_at_confirm 7 confirm_request "[]" env0 sess_at_confirm "JStr ''2024-12-20''"
                "JStr nine_to_ten" 10 739240 db15 15 20, THEN conjunct1, rule_format, OF h]
    by simp
  then show ?thesis by blast
qed

text \<open>
  C9 does not hold of the code. The claim is that every submitted visitor count outside
  1..10 is rejected with the stored state unchanged. The count is read as
  \<^verbatim>\<open>int(data.get('visitors') or booking_data.get('visitors') or 1)\<close>, so a submitted
  JSON number 0 is falsy and becomes 1: the request is accepted, the stored state gets
  \<^verbatim>\<open>visitors = 1\<close> and step \<^verbatim>\<open>confirm_booking\<close>.
\<close>

theorem select_visitors_zero_accepted:
  "map_option chatbot_booking
     (result_session (chatbot env0 sess_at_visitors empty_store zero_visitors_request))
     = Some (Some (booking_state (JStr ''confirm_booking'') (JStr ''2024-12-20'')
                     (JStr nine_to_ten) (JInt 1)))
   \<and> map_option r_step (result_json (chatbot env0 sess_at_visitors empty_store zero_visitors_request))
     = Some (Some ''confirm_booking'')"
  by code_simp

text \<open>
  What the range check does with the count that \<^verbatim>\<open>int\<close> returns.
\<close>

lemma select_visitors_range:
  assumes "submitted_visitors e data bd = Inr n"
  shows "(n < 1 \<or> n > 10 \<longrightarrow>
            select_visitors e sess db data bd = Inr (Done sess db (Json (say PleaseSelect1to10))))
       \<and> (1 \<le> n \<and> n \<le> 10 \<and> chatbot_booking sess = Some b
            \<and> date_or_today e (dget b ''date'') = Inr dd \<longrightarrow>
            (\<exists>sess' r. select_visitors e sess db data bd = Inr (Done sess' db (Json r))
               \<and> stored_step sess' = JStr ''confirm_booking''
               \<and> r_step r = Some ''confirm_booking''))"
  using assms
  by (auto simp: select_visitors_def Let_def stored_step_def dget_update_same dget_update_other)

end
